theory Spec2Isabelle
  imports Complex_Main "HOL-Library.Sublist" "HOL-Library.Word"
begin

section \<open>Python values\<close>

text \<open>
  The service of \<^verbatim>\<open>backend/main.py\<close> works on what \<^verbatim>\<open>response.json()\<close> returns: Python
  objects built from a JSON document. The model keeps them dynamically typed, as Python does,
  so that every \<^verbatim>\<open>AttributeError\<close> and \<^verbatim>\<open>TypeError\<close> of the source is a branch of the model.

  A \<^verbatim>\<open>str\<close> is a \<open>string\<close> with one \<open>char\<close> per code point: the model covers the
  strings whose code points are below 256. A \<^verbatim>\<open>float\<close> is its exact rational value, or one
  of the three special values that the JSON parser of Python also produces. A \<^verbatim>\<open>dict\<close> is
  the list of its items; a lookup takes the first item of a key.
\<close>

datatype pyfloat = Finite rat | PosInf | NegInf | NaN

datatype json =
    JNull
  | JBool bool
  | JInt int
  | JFloat pyfloat
  | JStr string
  | JList "json list"
  | JObj "(string \<times> json) list"

type_synonym pydict = "(string \<times> json) list"

text \<open>
  The exceptions that the source can meet. \<open>LibraryError\<close> stands for whatever PIL,
  pyzbar, \<^verbatim>\<open>bytes.decode\<close>, httpx or the JSON parser raise.
\<close>

datatype error = TypeError | AttributeError | ValueError | OverflowError | LibraryError

text \<open>\<^verbatim>\<open>d.get(k)\<close> and \<^verbatim>\<open>d.get(k, default)\<close> on a dict.\<close>

definition dict_get :: "pydict \<Rightarrow> string \<Rightarrow> json" where
  "dict_get d k = (case map_of d k of None \<Rightarrow> JNull | Some v \<Rightarrow> v)"

definition dict_get_default :: "pydict \<Rightarrow> string \<Rightarrow> json \<Rightarrow> json" where
  "dict_get_default d k dflt = (case map_of d k of None \<Rightarrow> dflt | Some v \<Rightarrow> v)"

text \<open>\<^verbatim>\<open>x.get(k, default)\<close> on any object: only a dict has the method.\<close>

definition py_get :: "json \<Rightarrow> string \<Rightarrow> json \<Rightarrow> error + json" where
  "py_get x k dflt = (case x of JObj d \<Rightarrow> Inr (dict_get_default d k dflt) | _ \<Rightarrow> Inl AttributeError)"

text \<open>Truth value testing, as \<^verbatim>\<open>if x\<close>, \<^verbatim>\<open>not x\<close>, \<^verbatim>\<open>x or y\<close> and \<^verbatim>\<open>x and y\<close> do it.\<close>

fun truthy :: "json \<Rightarrow> bool" where
  "truthy JNull = False"
| "truthy (JBool b) = b"
| "truthy (JInt i) = (i \<noteq> 0)"
| "truthy (JFloat (Finite r)) = (r \<noteq> 0)"
| "truthy (JFloat _) = True"
| "truthy (JStr s) = (s \<noteq> [])"
| "truthy (JList xs) = (xs \<noteq> [])"
| "truthy (JObj d) = (d \<noteq> [])"

definition py_or :: "json \<Rightarrow> json \<Rightarrow> json" where
  "py_or x y = (if truthy x then x else y)"

text \<open>
  \<^verbatim>\<open>x > t\<close> for a finite float \<open>t\<close>: exact on bool, int and float, false on NaN, and a
  \<^verbatim>\<open>TypeError\<close> on every other type.
\<close>

fun py_gt :: "json \<Rightarrow> rat \<Rightarrow> error + bool" where
  "py_gt (JBool b) t = Inr ((if b then 1 else 0) > t)"
| "py_gt (JInt i) t = Inr (of_int i > t)"
| "py_gt (JFloat (Finite r)) t = Inr (r > t)"
| "py_gt (JFloat PosInf) t = Inr True"
| "py_gt (JFloat NegInf) t = Inr False"
| "py_gt (JFloat NaN) t = Inr False"
| "py_gt _ t = Inl TypeError"

text \<open>\<^verbatim>\<open>x == 0\<close>: true on the int 0, the float 0.0 and \<^verbatim>\<open>False\<close>.\<close>

fun py_eq_zero :: "json \<Rightarrow> bool" where
  "py_eq_zero (JInt i) = (i = 0)"
| "py_eq_zero (JFloat (Finite r)) = (r = 0)"
| "py_eq_zero (JBool b) = (\<not> b)"
| "py_eq_zero _ = False"

subsection \<open>Strings\<close>

text \<open>
  \<^verbatim>\<open>str.isdigit\<close>: every character has the Unicode property Digit and there is at least
  one. Below code point 256 these are the ten ASCII digits and the superscripts two, three
  and one (U+00B2, U+00B3, U+00B9).
\<close>

definition char_isdigit :: "char \<Rightarrow> bool" where
  "char_isdigit c = (let n = (of_char c :: nat) in (48 \<le> n \<and> n \<le> 57) \<or> n = 178 \<or> n = 179 \<or> n = 185)"

definition isdigit :: "string \<Rightarrow> bool" where
  "isdigit s = (s \<noteq> [] \<and> list_all char_isdigit s)"

text \<open>
  \<^verbatim>\<open>str.lower\<close>, below code point 256: the ASCII capitals and the Latin-1 capitals
  U+00C0 .. U+00DE (the multiplication sign U+00D7 apart) move up by 32.
\<close>

definition char_lower :: "char \<Rightarrow> char" where
  "char_lower c = (let n = (of_char c :: nat) in
     if (65 \<le> n \<and> n \<le> 90) \<or> (192 \<le> n \<and> n \<le> 222 \<and> n \<noteq> 215) then char_of (n + 32) else c)"

definition lower :: "string \<Rightarrow> string" where
  "lower s = map char_lower s"

text \<open>
  \<^verbatim>\<open>str.upper\<close> on ASCII letters. The source applies it only to a string that it has
  just found equal to \<^verbatim>\<open>'d'\<close> or \<^verbatim>\<open>'e'\<close>.
\<close>

definition char_upper :: "char \<Rightarrow> char" where
  "char_upper c = (let n = (of_char c :: nat) in
     if 97 \<le> n \<and> n \<le> 122 then char_of (n - 32) else c)"

definition upper :: "string \<Rightarrow> string" where
  "upper s = map char_upper s"

text \<open>\<^verbatim>\<open>sub in s\<close> on strings: \<open>sub\<close> occurs in \<open>s\<close> as a contiguous block.\<close>

fun str_contains :: "string \<Rightarrow> string \<Rightarrow> bool" where
  "str_contains sub [] = (sub = [])"
| "str_contains sub (c # s) = (prefix sub (c # s) \<or> str_contains sub s)"

text \<open>
  \<^verbatim>\<open>str.strip()\<close>: whitespace is removed at both ends. Below code point 256 the
  whitespace characters are U+0009 .. U+000D, U+001C .. U+0020, U+0085 and U+00A0.
\<close>

definition char_isspace :: "char \<Rightarrow> bool" where
  "char_isspace c = (let n = (of_char c :: nat) in
     (9 \<le> n \<and> n \<le> 13) \<or> (28 \<le> n \<and> n \<le> 32) \<or> n = 133 \<or> n = 160)"

definition strip :: "string \<Rightarrow> string" where
  "strip s = rev (dropWhile char_isspace (rev (dropWhile char_isspace s)))"

text \<open>\<^verbatim>\<open>s.split(',')[0]\<close>: the part of \<open>s\<close> before its first comma.\<close>

definition first_comma_segment :: "string \<Rightarrow> string" where
  "first_comma_segment s = takeWhile (\<lambda>c. c \<noteq> CHR '','') s"

subsection \<open>Numbers as text\<close>

text \<open>The decimal digits of an integer that is not negative, as \<^verbatim>\<open>str\<close> prints them.\<close>

function digits :: "int \<Rightarrow> string" where
  "digits n = (if n < 10 then [char_of (48 + n)] else digits (n div 10) @ [char_of (48 + n mod 10)])"
  by pat_completeness auto
termination
  by (relation "measure nat") auto

declare digits.simps [simp del]

text \<open>Number of binary digits of a positive integer, \<^verbatim>\<open>int.bit_length\<close>.\<close>

function bit_length :: "int \<Rightarrow> nat" where
  "bit_length n = (if n \<le> 0 then 0 else Suc (bit_length (n div 2)))"
  by pat_completeness auto
termination
  by (relation "measure nat") auto

declare bit_length.simps [simp del]

text \<open>Rounding to the nearest integer, a tie going to the even neighbour.\<close>

definition round_half_even :: "rat \<Rightarrow> int" where
  "round_half_even q = (let f = \<lfloor>q\<rfloor>; d = q - of_int f in
     if d < 1 / 2 then f else if d > 1 / 2 then f + 1 else if even f then f else f + 1)"

text \<open>
  The format \<^verbatim>\<open>.2f\<close> of a finite float: its exact value rounded to two decimal places,
  ties to even. (The float \<^verbatim>\<open>-0.0\<close> prints a sign that the rational 0 does not carry;
  the source formats only values above 2.)
\<close>

definition fixed2 :: "rat \<Rightarrow> string" where
  "fixed2 r = (let n = round_half_even (\<bar>r\<bar> * 100) in
     (if r < 0 then ''-'' else []) @ digits (n div 100) @ ''.''
       @ [char_of (48 + n mod 100 div 10), char_of (48 + n mod 10)])"

text \<open>
  \<^verbatim>\<open>float(i)\<close> for an int: exact below \<open>2 ^ 53\<close>, beyond that the nearest number with 53
  binary digits (ties to even), and an \<^verbatim>\<open>OverflowError\<close> when that is \<open>2 ^ 1024\<close> or more.
\<close>

definition int_to_float :: "int \<Rightarrow> error + rat" where
  "int_to_float i = (let a = \<bar>i\<bar> in
     if a < 2 ^ 53 then Inr (of_int i)
     else
       let shift = bit_length a - 53;
           q = a div 2 ^ shift;
           r = a mod 2 ^ shift;
           half = 2 ^ (shift - 1);
           q' = (if r > half \<or> (r = half \<and> odd q) then q + 1 else q);
           v = q' * 2 ^ shift
       in if v \<ge> 2 ^ 1024 then Inl OverflowError else Inr (of_int (sgn i * v)))"

text \<open>\<^verbatim>\<open>f"{x:.2f}"\<close> on any object.\<close>

fun py_format_2f :: "json \<Rightarrow> error + string" where
  "py_format_2f (JBool b) = Inr (fixed2 (if b then 1 else 0))"
| "py_format_2f (JInt i) = (case int_to_float i of Inl e \<Rightarrow> Inl e | Inr r \<Rightarrow> Inr (fixed2 r))"
| "py_format_2f (JFloat (Finite r)) = Inr (fixed2 r)"
| "py_format_2f (JFloat PosInf) = Inr ''inf''"
| "py_format_2f (JFloat NegInf) = Inr ''-inf''"
| "py_format_2f (JFloat NaN) = Inr ''nan''"
| "py_format_2f (JStr s) = Inl ValueError"
| "py_format_2f _ = Inl TypeError"

subsection \<open>Iteration\<close>

text \<open>
  What a \<^verbatim>\<open>for\<close> loop or a generator sees: the elements of a list, the characters of a
  string (each a string of length one), the keys of a dict; any other object is not iterable.
\<close>

fun py_iter :: "json \<Rightarrow> error + json list" where
  "py_iter (JList xs) = Inr xs"
| "py_iter (JStr s) = Inr (map (\<lambda>c. JStr [c]) s)"
| "py_iter (JObj d) = Inr (map (\<lambda>kv. JStr (fst kv)) d)"
| "py_iter _ = Inl TypeError"

text \<open>\<^verbatim>\<open>x[:5]\<close>, iterated: lists and strings can be sliced, a dict and the scalars cannot.\<close>

fun py_slice5 :: "json \<Rightarrow> error + json list" where
  "py_slice5 (JList xs) = Inr (take 5 xs)"
| "py_slice5 (JStr s) = Inr (map (\<lambda>c. JStr [c]) (take 5 s))"
| "py_slice5 _ = Inl TypeError"

text \<open>\<^verbatim>\<open>x in [s1, s2]\<close> for string literals: equality with one of them.\<close>

definition py_in :: "json \<Rightarrow> string list \<Rightarrow> bool" where
  "py_in x ss = (x \<in> set (map JStr ss))"

section \<open>The scorer\<close>

definition CARBON_THRESHOLD :: rat where
  "CARBON_THRESHOLD = 2"

text \<open>
  The five icon literals of the source are single glyphs beyond code point 255: U+1F30D,
  U+1F331, U+2705, U+2764 U+FE0F and U+267B U+FE0F.
\<close>

datatype glyph = Globe | Seedling | CheckMark | Heart | Recycle

record Recommendation =
  icon :: glyph
  "text" :: string
  priority :: string

text \<open>\<^verbatim>\<open>get_eco_score_value\<close>: the grade, lowercased, looked up in the table; 50 otherwise.\<close>

definition scores :: "(string \<times> int) list" where
  "scores = [(''a'', 95), (''b'', 80), (''c'', 65), (''d'', 45), (''e'', 20)]"

definition get_eco_score_value :: "json \<Rightarrow> error + int" where
  "get_eco_score_value eco_score =
     (case (if truthy eco_score
            then (case eco_score of JStr s \<Rightarrow> Inr (lower s) | _ \<Rightarrow> Inl AttributeError)
            else Inr []) of
        Inl e \<Rightarrow> Inl e
      | Inr k \<Rightarrow> Inr (case map_of scores k of None \<Rightarrow> 50 | Some v \<Rightarrow> v))"

text \<open>
  The first rule of \<^verbatim>\<open>generate_recommendations\<close>:
  \<^verbatim>\<open>if carbon_footprint and carbon_footprint > CARBON_THRESHOLD\<close>.
\<close>

definition carbon_recommendation :: "json \<Rightarrow> error + Recommendation list" where
  "carbon_recommendation carbon_footprint =
     (if \<not> truthy carbon_footprint then Inr []
      else case py_gt carbon_footprint CARBON_THRESHOLD of
          Inl e \<Rightarrow> Inl e
        | Inr False \<Rightarrow> Inr []
        | Inr True \<Rightarrow>
            (case py_format_2f carbon_footprint of
               Inl e \<Rightarrow> Inl e
             | Inr s \<Rightarrow> Inr [\<lparr>icon = Globe,
                  text = ''High carbon footprint ('' @ s @
                    '' kg CO2e). Consider eco-friendly alternatives below.'',
                  priority = ''high''\<rparr>]))"

definition eco_recommendation :: "json \<Rightarrow> Recommendation list" where
  "eco_recommendation eco_score =
     (if py_in eco_score [''d'', ''e'']
      then [\<lparr>icon = Seedling,
              text = ''Low environmental score - look for products with better eco ratings'',
              priority = ''high''\<rparr>]
      else if py_in eco_score [''a'', ''b'']
      then [\<lparr>icon = CheckMark,
              text = ''Good environmental score! This product has lower environmental impact'',
              priority = ''low''\<rparr>]
      else [])"

definition nutrition_recommendation :: "json \<Rightarrow> Recommendation list" where
  "nutrition_recommendation nutri_score =
     (if py_in nutri_score [''d'', ''e'']
      then [\<lparr>icon = Heart,
              text = ''Nutrition score is '' @ (case nutri_score of JStr s \<Rightarrow> upper s | _ \<Rightarrow> [])
                       @ '' - consider healthier options'',
              priority = ''medium''\<rparr>]
      else [])"

text \<open>
  \<^verbatim>\<open>any('plastic' in p.lower() for p in packaging)\<close> over the elements that the iteration
  yields: it stops at the first hit, and an element that is not a string has no \<^verbatim>\<open>lower\<close>.
\<close>

fun any_plastic :: "json list \<Rightarrow> error + bool" where
  "any_plastic [] = Inr False"
| "any_plastic (p # ps) =
     (case p of
        JStr s \<Rightarrow> if str_contains ''plastic'' (lower s) then Inr True else any_plastic ps
      | _ \<Rightarrow> Inl AttributeError)"

definition plastic_recommendation :: "Recommendation" where
  "plastic_recommendation = \<lparr>icon = Recycle,
     text = ''Contains plastic packaging - recycle properly or choose alternatives with less plastic'',
     priority = ''medium''\<rparr>"

definition default_recommendation :: "Recommendation" where
  "default_recommendation = \<lparr>icon = CheckMark,
     text = ''This product has acceptable sustainability metrics'',
     priority = ''low''\<rparr>"

definition generate_recommendations :: "pydict \<Rightarrow> json \<Rightarrow> error + Recommendation list" where
  "generate_recommendations product_data carbon_footprint =
     (let eco_score = dict_get_default product_data ''ecoscore_grade'' (JStr []);
          nutri_score = dict_get_default product_data ''nutriscore_grade'' (JStr [])
      in case carbon_recommendation carbon_footprint of
          Inl e \<Rightarrow> Inl e
        | Inr r1 \<Rightarrow>
            (let r2 = r1 @ eco_recommendation eco_score;
                 r3 = r2 @ nutrition_recommendation nutri_score;
                 packaging = dict_get_default product_data ''packaging_tags'' (JList [])
             in case py_iter packaging of
                 Inl e \<Rightarrow> Inl e
               | Inr tags \<Rightarrow>
                   (case any_plastic tags of
                      Inl e \<Rightarrow> Inl e
                    | Inr b \<Rightarrow>
                        (let r4 = r3 @ (if b then [plastic_recommendation] else [])
                         in Inr (if r4 = [] then [default_recommendation] else r4)))))"

section \<open>The outside world\<close>

text \<open>
  An outbound call is a GET with a URL and query parameters (the fixed \<^verbatim>\<open>User-Agent\<close> header
  and the timeout of ten seconds are left out). The world answers a call with the object that
  \<^verbatim>\<open>response.json()\<close> returns, or with an exception of httpx or of the JSON parser. It decodes
  an image into the payloads of the barcode symbols found, each already passed through
  \<^verbatim>\<open>.data.decode('utf-8')\<close> (which can fail), or raises while opening or scanning the image.

  Every operation that can call out returns, beside its result, the list of the calls it has
  made, in order.
\<close>

datatype request = Get string "(string \<times> string) list"

type_synonym bytes = "8 word list"

record world =
  decode_image :: "bytes \<Rightarrow> error + (error + string) list"
  http_get :: "request \<Rightarrow> error + json"

definition OFF_BASE_URL :: string where
  "OFF_BASE_URL = ''https://world.openfoodfacts.org/api/v2/product/''"

section \<open>Barcode extraction\<close>

text \<open>The test of the extractor: \<^verbatim>\<open>gtin.isdigit() and len(gtin) in [8, 12, 13, 14]\<close>.\<close>

definition valid_gtin :: "string \<Rightarrow> bool" where
  "valid_gtin gtin = (isdigit gtin \<and> length gtin \<in> set [8, 12, 13, 14])"

text \<open>
  The guard of the endpoint \<^verbatim>\<open>get_product\<close>:
  \<^verbatim>\<open>not gtin.isdigit() or len(gtin) not in [8, 12, 13, 14]\<close>.
\<close>

definition invalid_barcode_format :: "string \<Rightarrow> bool" where
  "invalid_barcode_format gtin = (\<not> isdigit gtin \<or> length gtin \<notin> set [8, 12, 13, 14])"

definition extract_gtin_from_image :: "world \<Rightarrow> bytes \<Rightarrow> string option" where
  "extract_gtin_from_image w image_data =
     (case decode_image w image_data of
        Inl e \<Rightarrow> None
      | Inr [] \<Rightarrow> None
      | Inr (Inl e # _) \<Rightarrow> None
      | Inr (Inr gtin # _) \<Rightarrow> if valid_gtin gtin then Some gtin else None)"

section \<open>Alternatives\<close>

text \<open>The dict that \<^verbatim>\<open>fetch_alternatives\<close> appends for a candidate it keeps.\<close>

definition alternative :: "pydict \<Rightarrow> json \<Rightarrow> pydict" where
  "alternative product alt_eco =
     [(''name'', dict_get_default product ''product_name'' (JStr ''Unknown'')),
      (''brand'', dict_get_default product ''brands'' (JStr ''Unknown'')),
      (''eco_score'', alt_eco),
      (''image_url'', dict_get product ''image_front_small_url''),
      (''gtin'', dict_get product ''code'')]"

text \<open>
  The loop over the candidates. An exception leaves the loop and the list built so far
  is lost, as the handler returns the empty list.
\<close>

fun collect_alternatives :: "int \<Rightarrow> json list \<Rightarrow> error + pydict list" where
  "collect_alternatives current_score [] = Inr []"
| "collect_alternatives current_score (product # rest) =
     (case product of
        JObj d \<Rightarrow>
          (let alt_eco = dict_get_default d ''ecoscore_grade'' (JStr []) in
           case get_eco_score_value alt_eco of
             Inl e \<Rightarrow> Inl e
           | Inr v \<Rightarrow>
               if v > current_score
               then (case collect_alternatives current_score rest of
                       Inl e \<Rightarrow> Inl e
                     | Inr alts \<Rightarrow> Inr (alternative d alt_eco # alts))
               else collect_alternatives current_score rest)
      | _ \<Rightarrow> Inl AttributeError)"

text \<open>The body of the \<^verbatim>\<open>try\<close> after the call has answered \<open>data\<close>.\<close>

definition alternatives_of_search :: "json \<Rightarrow> json \<Rightarrow> error + pydict list" where
  "alternatives_of_search data current_eco_score =
     (case get_eco_score_value current_eco_score of
        Inl e \<Rightarrow> Inl e
      | Inr current_score \<Rightarrow>
          (case py_get data ''products'' (JList []) of
             Inl e \<Rightarrow> Inl e
           | Inr products \<Rightarrow>
               (case py_slice5 products of
                  Inl e \<Rightarrow> Inl e
                | Inr candidates \<Rightarrow>
                    (case collect_alternatives current_score candidates of
                       Inl e \<Rightarrow> Inl e
                     | Inr alts \<Rightarrow> Inr (take 3 alts)))))"

definition search_request :: "string \<Rightarrow> request" where
  "search_request category =
     Get ''https://world.openfoodfacts.org/cgi/search.pl''
       [(''action'', ''process''),
        (''tagtype_0'', ''categories''),
        (''tag_contains_0'', ''contains''),
        (''tag_0'', strip (first_comma_segment category)),
        (''sort_by'', ''ecoscore_score''),
        (''page_size'', ''5''),
        (''json'', ''1'')]"

text \<open>
  \<^verbatim>\<open>fetch_alternatives\<close>. A category that is not a string has no \<^verbatim>\<open>split\<close>: the exception
  is caught before any call is made.
\<close>

definition fetch_alternatives :: "world \<Rightarrow> json \<Rightarrow> json \<Rightarrow> pydict list \<times> request list" where
  "fetch_alternatives w category current_eco_score =
     (if \<not> truthy category then ([], [])
      else case category of
          JStr c \<Rightarrow>
            (let req = search_request c in
             case http_get w req of
               Inl e \<Rightarrow> ([], [req])
             | Inr data \<Rightarrow>
                 (case alternatives_of_search data current_eco_score of
                    Inl e \<Rightarrow> ([], [req])
                  | Inr alts \<Rightarrow> (alts, [req])))
        | _ \<Rightarrow> ([], []))"

section \<open>The endpoints\<close>

text \<open>
  The keyword arguments of \<^verbatim>\<open>ProductResponse(...)\<close>, with the defaults of the class for
  those left out. The fields copied from the product are the objects found there. The
  validation that pydantic runs on these arguments is library code and not part of the model:
  it can refuse them (a name that is a number) or convert them (an int figure into a float).
  The responses of the model are those that the endpoints hand to pydantic, a superset of
  those that they return; the flag, the recommendations and the alternatives are computed
  before.
\<close>

record ProductResponse =
  status :: string
  gtin :: "string option"
  name :: json
  brand :: json
  image_url :: json
  category :: json
  ingredients_text :: json
  nutri_score :: json
  eco_score :: json
  carbon_footprint :: json
  carbon_footprint_unit :: "string option"
  is_high_carbon :: bool
  recommendations :: "Recommendation list"
  alternatives :: "pydict list"
  source :: "string option"
  message :: "string option"

text \<open>
  How a request ends when it does not return a response: an \<^verbatim>\<open>HTTPException\<close> with its
  status code and detail, or an exception that no handler of the source catches.
\<close>

datatype failure = HTTPException nat string | Uncaught error

definition not_found_response :: "string option \<Rightarrow> string \<Rightarrow> ProductResponse" where
  "not_found_response g msg =
     \<lparr>status = ''not_found'', gtin = g, name = JNull, brand = JNull, image_url = JNull,
      category = JNull, ingredients_text = JNull, nutri_score = JNull, eco_score = JNull,
      carbon_footprint = JNull, carbon_footprint_unit = None, is_high_carbon = False,
      recommendations = [], alternatives = [], source = None, message = Some msg\<rparr>"

text \<open>
  The carbon figure: \<^verbatim>\<open>product.get('ecoscore_data', {})\<close>, and when that is truthy its
  \<^verbatim>\<open>agribalyse\<close> and there \<^verbatim>\<open>co2_total\<close>. The result is the figure (\<^verbatim>\<open>None\<close> when it was not
  read) and whether \<^verbatim>\<open>ecoscore_data\<close> was truthy.
\<close>

definition extract_carbon :: "pydict \<Rightarrow> error + json \<times> bool" where
  "extract_carbon product =
     (let ecoscore_data = dict_get_default product ''ecoscore_data'' (JObj []) in
      if truthy ecoscore_data
      then (case py_get ecoscore_data ''agribalyse'' (JObj []) of
              Inl e \<Rightarrow> Inl e
            | Inr agribalyse \<Rightarrow>
                (case py_get agribalyse ''co2_total'' JNull of
                   Inl e \<Rightarrow> Inl e
                 | Inr co2_total \<Rightarrow> Inr (co2_total, True)))
      else Inr (JNull, False))"

text \<open>\<^verbatim>\<open>carbon_footprint is not None and carbon_footprint > CARBON_THRESHOLD\<close>.\<close>

definition high_carbon :: "json \<Rightarrow> error + bool" where
  "high_carbon cf = (if cf = JNull then Inr False else py_gt cf CARBON_THRESHOLD)"

text \<open>
  \<^verbatim>\<open>not data.get('product') or data.get('status') == 0\<close>, on the object that the lookup
  answered.
\<close>

definition product_missing :: "json \<Rightarrow> error + bool" where
  "product_missing data =
     (case data of
        JObj d \<Rightarrow> Inr (\<not> truthy (dict_get d ''product'') \<or> py_eq_zero (dict_get d ''status''))
      | _ \<Rightarrow> Inl AttributeError)"

text \<open>
  The part that both endpoints have word for word, from \<^verbatim>\<open>product = data['product']\<close> to the
  response; they differ in the unit field only, which \<open>unit\<close> computes from the figure and
  the truth value of \<^verbatim>\<open>ecoscore_data\<close>. The lookup call \<open>req\<close> has been made.
\<close>

definition product_report ::
  "world \<Rightarrow> (json \<Rightarrow> bool \<Rightarrow> string option) \<Rightarrow> request \<Rightarrow> string \<Rightarrow> json
    \<Rightarrow> (failure + ProductResponse) \<times> request list" where
  "product_report w unit req g product_obj =
     (case product_obj of
        JObj product \<Rightarrow>
          (case extract_carbon product of
             Inl e \<Rightarrow> (Inl (Uncaught e), [req])
           | Inr (cf, has_ecoscore_data) \<Rightarrow>
               (case high_carbon cf of
                  Inl e \<Rightarrow> (Inl (Uncaught e), [req])
                | Inr high \<Rightarrow>
                    (case generate_recommendations product (py_or cf (JInt 0)) of
                       Inl e \<Rightarrow> (Inl (Uncaught e), [req])
                     | Inr recs \<Rightarrow>
                         (let (alts, calls) =
                                (if high
                                 then fetch_alternatives w (dict_get product ''categories'')
                                        (dict_get_default product ''ecoscore_grade'' (JStr []))
                                 else ([], []))
                          in (Inr \<lparr>status = ''success'',
                                   gtin = Some g,
                                   name = py_or (dict_get product ''product_name'')
                                            (dict_get_default product ''product_name_en''
                                               (JStr ''Unknown Product'')),
                                   brand = dict_get_default product ''brands'' (JStr ''Unknown Brand''),
                                   image_url = dict_get product ''image_front_url'',
                                   category = dict_get product ''categories'',
                                   ingredients_text = dict_get product ''ingredients_text_en'',
                                   nutri_score = dict_get product ''nutriscore_grade'',
                                   eco_score = dict_get product ''ecoscore_grade'',
                                   carbon_footprint = cf,
                                   carbon_footprint_unit = unit cf has_ecoscore_data,
                                   is_high_carbon = high,
                                   recommendations = recs,
                                   alternatives = alts,
                                   source = Some ''OpenFoodFacts'',
                                   message = None\<rparr>,
                              req # calls)))))
      | _ \<Rightarrow> (Inl (Uncaught AttributeError), [req]))"

text \<open>The lookup and what follows it; \<open>msg\<close> is the message of the not-found response.\<close>

definition lookup_product ::
  "world \<Rightarrow> (json \<Rightarrow> bool \<Rightarrow> string option) \<Rightarrow> string \<Rightarrow> string
    \<Rightarrow> (failure + ProductResponse) \<times> request list" where
  "lookup_product w unit msg g =
     (let req = Get (OFF_BASE_URL @ g) [] in
      case http_get w req of
        Inl e \<Rightarrow> (Inl (HTTPException 500 ''Failed to fetch product data''), [req])
      | Inr data \<Rightarrow>
          (case product_missing data of
             Inl e \<Rightarrow> (Inl (Uncaught e), [req])
           | Inr True \<Rightarrow> (Inr (not_found_response (Some g) msg), [req])
           | Inr False \<Rightarrow>
               product_report w unit req g
                 (case data of JObj d \<Rightarrow> dict_get d ''product'' | _ \<Rightarrow> JNull)))"

text \<open>\<^verbatim>\<open>POST /api/scan\<close>; \<open>image_data\<close> is what \<^verbatim>\<open>image.read()\<close> returned.\<close>

definition scan_product :: "world \<Rightarrow> bytes \<Rightarrow> (failure + ProductResponse) \<times> request list" where
  "scan_product w image_data =
     (if image_data = [] then (Inl (HTTPException 400 ''Empty image file''), [])
      else case extract_gtin_from_image w image_data of
          None \<Rightarrow>
            (Inr (not_found_response None
                    ''No barcode detected. Please ensure the barcode is clearly visible.''), [])
        | Some g \<Rightarrow>
            if g = []
            then (Inr (not_found_response None
                    ''No barcode detected. Please ensure the barcode is clearly visible.''), [])
            else lookup_product w (\<lambda>cf has_ecoscore_data.
                     if has_ecoscore_data then Some ''kg CO2e/kg'' else None)
                   (''Product with barcode '' @ g @ '' not found in database.'') g)"

text \<open>\<^verbatim>\<open>GET /api/product/{gtin}\<close>.\<close>

definition get_product :: "world \<Rightarrow> string \<Rightarrow> (failure + ProductResponse) \<times> request list" where
  "get_product w g =
     (if invalid_barcode_format g then (Inl (HTTPException 400 ''Invalid barcode format''), [])
      else lookup_product w (\<lambda>cf has_ecoscore_data.
               if truthy cf then Some ''kg CO2e/kg'' else None)
             (''Product with barcode '' @ g @ '' not found.'') g)"

section \<open>Notions of the specification\<close>

text \<open>
  The search results of the alternatives search: the list under \<^verbatim>\<open>products\<close> in the answer to
  the search for the category, empty when there is no such answer.
\<close>

definition search_results :: "world \<Rightarrow> json \<Rightarrow> json list" where
  "search_results w cat =
     (case cat of
        JStr c \<Rightarrow>
          (case http_get w (search_request c) of
             Inr (JObj d) \<Rightarrow>
               (case dict_get_default d ''products'' (JList []) of JList ps \<Rightarrow> ps | _ \<Rightarrow> [])
           | _ \<Rightarrow> [])
      | _ \<Rightarrow> [])"

text \<open>The alternative that a search result turns into when it is kept.\<close>

definition alternative_of :: "json \<Rightarrow> pydict" where
  "alternative_of p =
     (case p of
        JObj d \<Rightarrow> alternative d (dict_get_default d ''ecoscore_grade'' (JStr []))
      | _ \<Rightarrow> [])"

text \<open>A carbon figure that is strictly greater than 2.0: a number above the threshold.\<close>

fun exceeds_threshold :: "json \<Rightarrow> bool" where
  "exceeds_threshold (JInt i) = (2 < i)"
| "exceeds_threshold (JFloat (Finite r)) = (2 < r)"
| "exceeds_threshold (JFloat PosInf) = True"
| "exceeds_threshold _ = False"

text \<open>
  The entry \<^verbatim>\<open>co2_total\<close> under \<^verbatim>\<open>ecoscore_data\<close> and \<^verbatim>\<open>agribalyse\<close> of the product in an answer of
  the lookup; \<^verbatim>\<open>None\<close> when a step of the path is missing.
\<close>

definition nested_co2_total :: "json \<Rightarrow> json" where
  "nested_co2_total data =
     (case data of
        JObj d \<Rightarrow>
          (case dict_get d ''product'' of
             JObj p \<Rightarrow>
               (case dict_get p ''ecoscore_data'' of
                  JObj e \<Rightarrow>
                    (case dict_get e ''agribalyse'' of
                       JObj a \<Rightarrow> dict_get a ''co2_total''
                     | _ \<Rightarrow> JNull)
                | _ \<Rightarrow> JNull)
           | _ \<Rightarrow> JNull)
      | _ \<Rightarrow> JNull)"

text \<open>The high-carbon recommendation: priority high, and a text that begins as shown.\<close>

definition is_carbon_warning :: "Recommendation \<Rightarrow> bool" where
  "is_carbon_warning r = (priority r = ''high'' \<and> prefix ''High carbon footprint'' (text r))"

subsection \<open>The rules of the scorer, as the specification words them\<close>

text \<open>
  The specification gives the scorer as four rules, evaluated in the order carbon, eco grade,
  nutrition grade, packaging, each rule that fires adding one recommendation, and one default
  recommendation when none fires. The definitions below follow these words and share nothing
  with the model of the scorer: the texts and icons, which the specification leaves open, are
  written out from the source.
\<close>

text \<open>
  A text shows a figure to two decimal places when it reads as a number with two digits
  after the point that is within half a hundredth of the figure. The reading is by the
  value of each digit; it does not say how a tie is rounded. An infinite figure is shown as
  \<^verbatim>\<open>inf\<close>.
\<close>

definition digit_of :: "char \<Rightarrow> int option" where
  "digit_of c = map_of [(CHR ''0'', 0), (CHR ''1'', 1), (CHR ''2'', 2), (CHR ''3'', 3), (CHR ''4'', 4),
     (CHR ''5'', 5), (CHR ''6'', 6), (CHR ''7'', 7), (CHR ''8'', 8), (CHR ''9'', 9)] c"

fun read_digits :: "int \<Rightarrow> string \<Rightarrow> int option" where
  "read_digits acc [] = Some acc"
| "read_digits acc (c # cs) =
     (case digit_of c of None \<Rightarrow> None | Some d \<Rightarrow> read_digits (acc * 10 + d) cs)"

definition natural_of :: "string \<Rightarrow> int option" where
  "natural_of s = (if s = [] then None else read_digits 0 s)"

definition two_decimal_value :: "string \<Rightarrow> rat option" where
  "two_decimal_value s =
     (case (natural_of (take (length s - 3) s), drop (length s - 3) s) of
        (Some a, [p, c1, c2]) \<Rightarrow>
          (case (p = CHR ''.'', digit_of c1, digit_of c2) of
             (True, Some d1, Some d2) \<Rightarrow> Some (of_int a + of_int (10 * d1 + d2) / 100)
           | _ \<Rightarrow> None)
      | _ \<Rightarrow> None)"

fun shows_figure :: "json \<Rightarrow> string \<Rightarrow> bool" where
  "shows_figure (JInt i) s =
     (case two_decimal_value s of None \<Rightarrow> False | Some q \<Rightarrow> \<bar>q - of_int i\<bar> \<le> 1 / 200)"
| "shows_figure (JFloat (Finite r)) s =
     (case two_decimal_value s of None \<Rightarrow> False | Some q \<Rightarrow> \<bar>q - r\<bar> \<le> 1 / 200)"
| "shows_figure (JFloat PosInf) s = (s = ''inf'')"
| "shows_figure _ s = False"

text \<open>
  Rule 1: a carbon figure that is present and above 2.0 gives one entry of priority high,
  with the figure as \<open>shown\<close> in its text.
\<close>

definition rule_carbon :: "json \<Rightarrow> string \<Rightarrow> Recommendation list" where
  "rule_carbon figure shown =
     (if exceeds_threshold figure
      then [\<lparr>icon = Globe,
              text = ''High carbon footprint ('' @ shown @
                '' kg CO2e). Consider eco-friendly alternatives below.'',
              priority = ''high''\<rparr>]
      else [])"

text \<open>Rule 2: the eco grade d or e gives one entry of priority high, a or b one of priority low.\<close>

definition rule_eco_grade :: "pydict \<Rightarrow> Recommendation list" where
  "rule_eco_grade p =
     (if map_of p ''ecoscore_grade'' \<in> {Some (JStr ''d''), Some (JStr ''e'')}
      then [\<lparr>icon = Seedling,
              text = ''Low environmental score - look for products with better eco ratings'',
              priority = ''high''\<rparr>]
      else if map_of p ''ecoscore_grade'' \<in> {Some (JStr ''a''), Some (JStr ''b'')}
      then [\<lparr>icon = CheckMark,
              text = ''Good environmental score! This product has lower environmental impact'',
              priority = ''low''\<rparr>]
      else [])"

text \<open>
  Rule 3: the nutrition grade d or e gives one entry of priority medium, with the grade in
  capitals in its text.
\<close>

definition rule_nutrition_grade :: "pydict \<Rightarrow> Recommendation list" where
  "rule_nutrition_grade p =
     (if map_of p ''nutriscore_grade'' = Some (JStr ''d'')
      then [\<lparr>icon = Heart,
              text = ''Nutrition score is D - consider healthier options'',
              priority = ''medium''\<rparr>]
      else if map_of p ''nutriscore_grade'' = Some (JStr ''e'')
      then [\<lparr>icon = Heart,
              text = ''Nutrition score is E - consider healthier options'',
              priority = ''medium''\<rparr>]
      else [])"

text \<open>
  Rule 4: a packaging tag that contains \<^verbatim>\<open>plastic\<close>, each letter in either case, gives one
  entry of priority medium.
\<close>

definition plastic_spellings :: "string list" where
  "plastic_spellings = product_lists [''pP'', ''lL'', ''aA'', ''sS'', ''tT'', ''iI'', ''cC'']"

definition mentions_plastic :: "json \<Rightarrow> bool" where
  "mentions_plastic t =
     (case t of JStr s \<Rightarrow> list_ex (\<lambda>u. sublist u s) plastic_spellings | _ \<Rightarrow> False)"

definition packaging_tags :: "pydict \<Rightarrow> json list" where
  "packaging_tags p = (case map_of p ''packaging_tags'' of Some (JList ts) \<Rightarrow> ts | _ \<Rightarrow> [])"

definition rule_packaging :: "pydict \<Rightarrow> Recommendation list" where
  "rule_packaging p =
     (if list_ex mentions_plastic (packaging_tags p)
      then [\<lparr>icon = Recycle,
              text = ''Contains plastic packaging - recycle properly or choose alternatives with less plastic'',
              priority = ''medium''\<rparr>]
      else [])"

text \<open>The sequence of the rules that fire, in their order, or the default recommendation alone.\<close>

definition rules_in_order :: "pydict \<Rightarrow> json \<Rightarrow> string \<Rightarrow> Recommendation list" where
  "rules_in_order p figure shown =
     (let fired = rule_carbon figure shown @ rule_eco_grade p @ rule_nutrition_grade p
                    @ rule_packaging p
      in if fired = []
         then [\<lparr>icon = CheckMark,
                 text = ''This product has acceptable sustainability metrics'',
                 priority = ''low''\<rparr>]
         else fired)"

text \<open>
  The inputs of the scorer as the data model has them: the packaging tags, when the product
  has them, are a list of strings; the carbon figure is a float, \<^verbatim>\<open>None\<close>, or an int or bool
  that \<^verbatim>\<open>float\<close> represents exactly.
\<close>

definition is_str :: "json \<Rightarrow> bool" where
  "is_str t = (case t of JStr s \<Rightarrow> True | _ \<Rightarrow> False)"

definition tags_well_formed :: "pydict \<Rightarrow> bool" where
  "tags_well_formed p =
     (case map_of p ''packaging_tags'' of
        None \<Rightarrow> True
      | Some (JList ts) \<Rightarrow> list_all is_str ts
      | Some _ \<Rightarrow> False)"

fun figure_well_formed :: "json \<Rightarrow> bool" where
  "figure_well_formed JNull = True"
| "figure_well_formed (JBool b) = True"
| "figure_well_formed (JInt i) = (\<bar>i\<bar> < 2 ^ 53)"
| "figure_well_formed (JFloat f) = True"
| "figure_well_formed _ = False"

text \<open>
  An uppercase letter below code point 256: a character that \<^verbatim>\<open>str.lower\<close> changes.
\<close>

definition char_isupper :: "char \<Rightarrow> bool" where
  "char_isupper c = (let n = (of_char c :: nat) in
     (65 \<le> n \<and> n \<le> 90) \<or> (192 \<le> n \<and> n \<le> 222 \<and> n \<noteq> 215))"

section \<open>Worlds and products for the examples\<close>

text \<open>A world without network: every call raises. Its images show the barcode 12345678.\<close>

definition quiet_world :: world where
  "quiet_world =
     \<lparr>decode_image = (\<lambda>i. Inr [Inr ''12345678'']), http_get = (\<lambda>r. Inl LibraryError)\<rparr>"


text \<open>A world whose search finds the given products.\<close>

definition snack_world :: "json list \<Rightarrow> world" where
  "snack_world ps =
     \<lparr>decode_image = (\<lambda>i. Inl LibraryError),
      http_get = (\<lambda>r. Inr (JObj [(''products'', JList ps)]))\<rparr>"

definition graded :: "string \<Rightarrow> string \<Rightarrow> json" where
  "graded n g = JObj [(''product_name'', JStr n), (''ecoscore_grade'', JStr g)]"

text \<open>
  Two products: crisps with a carbon figure of 3.5, the grade d and a plastic wrap, and an
  apple with a figure of 0.5 and the grade a. \<open>found\<close> is the answer of the lookup that holds
  a product.
\<close>

definition crisps :: pydict where
  "crisps =
     [(''product_name'', JStr ''Crisps''),
      (''categories'', JStr ''snacks, crisps''),
      (''ecoscore_grade'', JStr ''d''),
      (''packaging_tags'', JList [JStr ''Plastic wrap'']),
      (''ecoscore_data'', JObj [(''agribalyse'', JObj [(''co2_total'', JFloat (Finite (7 / 2)))])])]"

definition apple :: pydict where
  "apple =
     [(''product_name'', JStr ''Apple''),
      (''ecoscore_grade'', JStr ''a''),
      (''ecoscore_data'', JObj [(''agribalyse'', JObj [(''co2_total'', JFloat (Finite (1 / 2)))])])]"

definition found :: "pydict \<Rightarrow> json" where
  "found p = JObj [(''status'', JInt 1), (''product'', JObj p)]"

text \<open>
  A world whose lookup (the call without query parameters) finds the product \<open>p\<close> and whose
  search finds the products \<open>ps\<close>. Its images show the barcode 12345678.
\<close>

definition shop_world :: "pydict \<Rightarrow> json list \<Rightarrow> world" where
  "shop_world p ps =
     \<lparr>decode_image = (\<lambda>i. Inr [Inr ''12345678'']),
      http_get = (\<lambda>r. case r of Get url params \<Rightarrow>
         if params = [] then Inr (found p) else Inr (JObj [(''products'', JList ps)]))\<rparr>"

text \<open>The responses to the crisps and to the apple, as the endpoints build them.\<close>

definition crisps_recommendations :: "Recommendation list" where
  "crisps_recommendations =
     [\<lparr>icon = Globe,
        text = ''High carbon footprint (3.50 kg CO2e). Consider eco-friendly alternatives below.'',
        priority = ''high''\<rparr>,
      \<lparr>icon = Seedling,
        text = ''Low environmental score - look for products with better eco ratings'',
        priority = ''high''\<rparr>,
      \<lparr>icon = Recycle,
        text = ''Contains plastic packaging - recycle properly or choose alternatives with less plastic'',
        priority = ''medium''\<rparr>]"

definition crisps_response :: ProductResponse where
  "crisps_response =
     \<lparr>status = ''success'', gtin = Some ''12345678'', name = JStr ''Crisps'',
      brand = JStr ''Unknown Brand'', image_url = JNull, category = JStr ''snacks, crisps'',
      ingredients_text = JNull, nutri_score = JNull, eco_score = JStr ''d'',
      carbon_footprint = JFloat (Finite (7 / 2)), carbon_footprint_unit = Some ''kg CO2e/kg'',
      is_high_carbon = True, recommendations = crisps_recommendations,
      alternatives = [alternative_of (graded ''Popcorn'' ''b'')],
      source = Some ''OpenFoodFacts'', message = None\<rparr>"

definition apple_response :: ProductResponse where
  "apple_response =
     \<lparr>status = ''success'', gtin = Some ''12345678'', name = JStr ''Apple'',
      brand = JStr ''Unknown Brand'', image_url = JNull, category = JNull,
      ingredients_text = JNull, nutri_score = JNull, eco_score = JStr ''a'',
      carbon_footprint = JFloat (Finite (1 / 2)), carbon_footprint_unit = Some ''kg CO2e/kg'',
      is_high_carbon = False,
      recommendations =
        [\<lparr>icon = CheckMark,
           text = ''Good environmental score! This product has lower environmental impact'',
           priority = ''low''\<rparr>],
      alternatives = [], source = Some ''OpenFoodFacts'', message = None\<rparr>"

text \<open>
  Biscuits with the grade b, the nutrition grade e and a plastic film spelled in capitals.
\<close>

definition biscuits :: pydict where
  "biscuits =
     [(''product_name'', JStr ''Biscuits''),
      (''ecoscore_grade'', JStr ''b''),
      (''nutriscore_grade'', JStr ''e''),
      (''packaging_tags'', JList [JStr ''Carton'', JStr ''PLASTIC film''])]"

definition biscuits_recommendations :: "Recommendation list" where
  "biscuits_recommendations =
     [\<lparr>icon = Globe,
        text = ''High carbon footprint (2.12 kg CO2e). Consider eco-friendly alternatives below.'',
        priority = ''high''\<rparr>,
      \<lparr>icon = CheckMark,
        text = ''Good environmental score! This product has lower environmental impact'',
        priority = ''low''\<rparr>,
      \<lparr>icon = Heart,
        text = ''Nutrition score is E - consider healthier options'',
        priority = ''medium''\<rparr>,
      \<lparr>icon = Recycle,
        text = ''Contains plastic packaging - recycle properly or choose alternatives with less plastic'',
        priority = ''medium''\<rparr>]"

text \<open>
  Eight times the superscript two (U+00B2), and a world without network whose images show
  a given payload.
\<close>

definition superscript_twos :: string where
  "superscript_twos = replicate 8 (char_of (178 :: nat))"

definition showing_world :: "string \<Rightarrow> world" where
  "showing_world payload =
     \<lparr>decode_image = (\<lambda>i. Inr [Inr payload]), http_get = (\<lambda>r. Inl LibraryError)\<rparr>"

section \<open>Properties: barcodes\<close>

lemma isdigit_iff: "isdigit b \<longleftrightarrow> b \<noteq> [] \<and> (\<forall>c\<in>set b. char_isdigit c)"
  by (simp add: isdigit_def list_all_iff)

lemma valid_gtin_iff:
  "valid_gtin b \<longleftrightarrow> (\<forall>c\<in>set b. char_isdigit c) \<and> length b \<in> {8, 12, 13, 14}"
  by (auto simp: valid_gtin_def isdigit_iff)

lemma invalid_barcode_format_iff: "invalid_barcode_format b \<longleftrightarrow> \<not> valid_gtin b"
  by (simp add: invalid_barcode_format_def valid_gtin_def)



lemma product_report_not_HTTPException:
  "fst (product_report w u req g p) \<noteq> Inl (HTTPException n d)"
  by (simp add: product_report_def Let_def split: sum.splits json.splits prod.splits)

lemma lookup_product_not_400:
  "fst (lookup_product w u m g) \<noteq> Inl (HTTPException 400 d)"
  by (simp add: lookup_product_def Let_def product_report_not_HTTPException
      split: sum.splits bool.splits)

text \<open>
  What the two tests of the source are: \<^verbatim>\<open>str.isdigit\<close> on every character and one of the four
  lengths, in the extractor and in the guard of \<^verbatim>\<open>get_product\<close> alike.
\<close>

lemma barcode_accepted_iff:
  "(valid_gtin b \<longleftrightarrow> (\<forall>c\<in>set b. char_isdigit c) \<and> length b \<in> {8, 12, 13, 14})
   \<and> (fst (get_product w b) \<noteq> Inl (HTTPException 400 ''Invalid barcode format'')
        \<longleftrightarrow> (\<forall>c\<in>set b. char_isdigit c) \<and> length b \<in> {8, 12, 13, 14})
   \<and> (decode_image w image_data = Inr (Inr b # others) \<longrightarrow>
        (extract_gtin_from_image w image_data = Some b
          \<longleftrightarrow> (\<forall>c\<in>set b. char_isdigit c) \<and> length b \<in> {8, 12, 13, 14}))"
proof -
  have "fst (get_product w b) \<noteq> Inl (HTTPException 400 ''Invalid barcode format'')
      \<longleftrightarrow> valid_gtin b"
    by (simp add: get_product_def invalid_barcode_format_iff lookup_product_not_400)
  moreover have "decode_image w image_data = Inr (Inr b # others) \<Longrightarrow>
      extract_gtin_from_image w image_data = Some b \<longleftrightarrow> valid_gtin b"
    by (simp add: extract_gtin_from_image_def)
  ultimately show ?thesis
    by (simp add: valid_gtin_iff)
qed

lemma char_of_code: "(of_char c :: nat) = of_char d \<Longrightarrow> c = d"
  by simp

lemma ascii_digit_codes:
  "map of_char ''0123456789'' = [48, 49, 50, 51, 52, 53, 54, 55, 56, 57 :: nat]"
  by simp

text \<open>
  On ASCII characters \<^verbatim>\<open>str.isdigit\<close> holds on the digits 0 to 9 and on nothing else, so on
  ASCII strings the tests accept the numeric codes of the four lengths and reject the rest
  before any call.
\<close>

lemma char_isdigit_ascii:
  assumes "(of_char c :: nat) < 128"
  shows "char_isdigit c \<longleftrightarrow> c \<in> set ''0123456789''"
proof
  assume "char_isdigit c"
  with assms have "48 \<le> (of_char c :: nat) \<and> (of_char c :: nat) \<le> 57"
    by (auto simp: char_isdigit_def Let_def)
  then have "(of_char c :: nat) \<in> set [48, 49, 50, 51, 52, 53, 54, 55, 56, 57]"
    by (simp del: of_char_eq_iff) arith
  then have "(of_char c :: nat) \<in> of_char ` set ''0123456789''"
    by (simp only: ascii_digit_codes [symmetric] set_map)
  then show "c \<in> set ''0123456789''"
    by (auto simp del: set_simps dest: char_of_code)
next
  assume "c \<in> set ''0123456789''"
  then show "char_isdigit c"
    by (auto simp: char_isdigit_def)
qed

lemma ascii_barcode_accepted_iff:
  assumes "\<forall>c\<in>set b. (of_char c :: nat) < 128"
  shows "valid_gtin b \<longleftrightarrow> set b \<subseteq> set ''0123456789'' \<and> length b \<in> {8, 12, 13, 14}"
proof -
  from assms have "(\<forall>c\<in>set b. char_isdigit c) \<longleftrightarrow> set b \<subseteq> set ''0123456789''"
    using char_isdigit_ascii by blast
  then show ?thesis
    by (simp only: valid_gtin_iff)
qed

text \<open>
  Claim C3. A string should be accepted as a barcode, by the validation of the image
  extractor and by the guard of \<^verbatim>\<open>get_product\<close>, if and only if all its characters are digits
  and its length is 8, 12, 13 or 14. The source tests \<^verbatim>\<open>str.isdigit\<close>, which holds on more than
  the digits 0 to 9: the string of eight superscript twos has none of the ten digits, yet the
  extractor returns it and the guard lets it pass.
\<close>

theorem superscript_barcode_accepted:
  "valid_gtin superscript_twos
   \<and> extract_gtin_from_image (showing_world superscript_twos) [1] = Some superscript_twos
   \<and> \<not> invalid_barcode_format superscript_twos
   \<and> length superscript_twos = 8
   \<and> set superscript_twos \<inter> set ''0123456789'' = {}"
  by code_simp

theorem superscript_barcode_accepted_witness:
  "valid_gtin (replicate 8 (char_of (178 :: nat)))
   \<and> extract_gtin_from_image (showing_world (replicate 8 (char_of (178 :: nat)))) [1]
       = Some (replicate 8 (char_of (178 :: nat)))
   \<and> \<not> invalid_barcode_format (replicate 8 (char_of (178 :: nat)))"
  using superscript_barcode_accepted by (simp add: superscript_twos_def)

lemma empty_upload_rejected:
  "scan_product w [] = (Inl (HTTPException 400 ''Empty image file''), [])"
  by (simp add: scan_product_def)

text \<open>
  The empty upload, and every path parameter that fails the test of the guard, are rejected
  with the status 400 and no call is made.
\<close>

lemma isdigit_failure_rejected_before_any_call:
  "scan_product w [] = (Inl (HTTPException 400 ''Empty image file''), [])
   \<and> (\<not> ((\<forall>c\<in>set b. char_isdigit c) \<and> length b \<in> {8, 12, 13, 14}) \<longrightarrow>
        get_product w b = (Inl (HTTPException 400 ''Invalid barcode format''), []))"
  by (simp add: scan_product_def get_product_def invalid_barcode_format_iff valid_gtin_iff)

lemma ascii_invalid_rejected_before_any_call:
  assumes "\<forall>c\<in>set b. (of_char c :: nat) < 128"
    and "\<not> (set b \<subseteq> set ''0123456789'' \<and> length b \<in> {8, 12, 13, 14})"
  shows "get_product w b = (Inl (HTTPException 400 ''Invalid barcode format''), [])"
proof -
  from assms(2) ascii_barcode_accepted_iff [OF assms(1)] have "\<not> valid_gtin b"
    by blast
  then show ?thesis
    by (simp add: get_product_def invalid_barcode_format_iff)
qed

text \<open>
  Claim C7. A request with invalid client input should be rejected with the status 400 before
  any outbound call. For the empty upload it is (\<open>empty_upload_rejected\<close>), and so it is for
  every malformed parameter of ASCII characters. The parameter of eight superscript twos is
  not rejected: \<^verbatim>\<open>get_product\<close> makes the outbound lookup with it, and here ends in the error
  500 of a lookup that fails.
\<close>

theorem superscript_barcode_reaches_lookup:
  "get_product (showing_world superscript_twos) superscript_twos
     = (Inl (HTTPException 500 ''Failed to fetch product data''),
        [Get (OFF_BASE_URL @ superscript_twos) []])
   \<and> set superscript_twos \<inter> set ''0123456789'' = {}"
  by code_simp

theorem superscript_barcode_reaches_lookup_witness:
  "snd (get_product (showing_world superscript_twos) superscript_twos)
     = [Get (OFF_BASE_URL @ superscript_twos) []]
   \<and> fst (get_product (showing_world superscript_twos) superscript_twos)
     \<noteq> Inl (HTTPException 400 ''Invalid barcode format'')"
  using superscript_barcode_reaches_lookup by simp

section \<open>Properties: alternatives\<close>

lemma eco_score_of_alternative: "dict_get (alternative d g) ''eco_score'' = g"
  by (simp add: alternative_def dict_get_def)

lemma collect_alternatives_kept:
  "collect_alternatives cs ps = Inr alts \<Longrightarrow>
     \<exists>kept. subseq kept ps \<and> alts = map alternative_of kept
       \<and> (\<forall>a\<in>set alts. \<exists>va. get_eco_score_value (dict_get a ''eco_score'') = Inr va \<and> cs < va)"
proof (induction ps arbitrary: alts)
  case Nil
  then show ?case by simp
next
  case (Cons p ps)
  from Cons.prems obtain d where p: "p = JObj d"
    by (cases p) simp_all
  let ?g = "dict_get_default d ''ecoscore_grade'' (JStr [])"
  from Cons.prems p obtain v where v: "get_eco_score_value ?g = Inr v"
    by (cases "get_eco_score_value ?g") (simp_all add: Let_def)
  show ?case
  proof (cases "cs < v")
    case True
    with Cons.prems p v obtain rest where
      rest: "collect_alternatives cs ps = Inr rest" and alts: "alts = alternative d ?g # rest"
      by (cases "collect_alternatives cs ps") (auto simp: Let_def)
    from Cons.IH [OF rest] obtain kept where
      k: "subseq kept ps" "rest = map alternative_of kept"
        "\<forall>a\<in>set rest. \<exists>va. get_eco_score_value (dict_get a ''eco_score'') = Inr va \<and> cs < va"
      by blast
    have "subseq (p # kept) (p # ps)" using k(1) by simp
    moreover have "alts = map alternative_of (p # kept)"
      using alts k(2) p by (simp add: alternative_of_def)
    moreover have "\<forall>a\<in>set alts. \<exists>va. get_eco_score_value (dict_get a ''eco_score'') = Inr va \<and> cs < va"
      using alts k(3) v True by (simp add: eco_score_of_alternative)
    ultimately show ?thesis by blast
  next
    case False
    with Cons.prems p v have "collect_alternatives cs ps = Inr alts"
      by (simp add: Let_def)
    from Cons.IH [OF this] obtain kept where
      k: "subseq kept ps" "alts = map alternative_of kept"
        "\<forall>a\<in>set alts. \<exists>va. get_eco_score_value (dict_get a ''eco_score'') = Inr va \<and> cs < va"
      by blast
    have "subseq kept (p # ps)" using k(1) by (rule list_emb_Cons)
    with k show ?thesis by blast
  qed
qed

lemma alternatives_of_search_kept:
  assumes "alternatives_of_search data cur = Inr alts" and "alts \<noteq> []"
  shows "\<exists>d ps kept vc. data = JObj d \<and> dict_get_default d ''products'' (JList []) = JList ps
           \<and> subseq kept ps \<and> alts = map alternative_of kept
           \<and> get_eco_score_value cur = Inr vc
           \<and> (\<forall>a\<in>set alts. \<exists>va. get_eco_score_value (dict_get a ''eco_score'') = Inr va \<and> vc < va)"
proof -
  from assms(1) obtain vc where vc: "get_eco_score_value cur = Inr vc"
    by (cases "get_eco_score_value cur") (simp_all add: alternatives_of_search_def)
  from assms(1) vc obtain d where d: "data = JObj d"
    by (cases data) (simp_all add: alternatives_of_search_def py_get_def)
  let ?products = "dict_get_default d ''products'' (JList [])"
  from assms(1) vc d obtain cands where cands: "py_slice5 ?products = Inr cands"
    by (cases "py_slice5 ?products") (simp_all add: alternatives_of_search_def py_get_def)
  from assms(1) vc d cands obtain found where
    found: "collect_alternatives vc cands = Inr found" and alts: "alts = take 3 found"
    by (cases "collect_alternatives vc cands") (simp_all add: alternatives_of_search_def py_get_def)
  from collect_alternatives_kept [OF found] obtain kept where
    k: "subseq kept cands" "found = map alternative_of kept"
      "\<forall>a\<in>set found. \<exists>va. get_eco_score_value (dict_get a ''eco_score'') = Inr va \<and> vc < va"
    by blast
  have ne: "cands \<noteq> []"
    using assms(2) alts k by auto
  have nostr: "\<And>s. ?products \<noteq> JStr s"
  proof
    fix s assume s: "?products = JStr s"
    with cands ne obtain c cs where "cands = JStr [c] # cs"
      by (cases "take 5 s") auto
    with found show False by simp
  qed
  from cands nostr obtain ps where ps: "?products = JList ps" "cands = take 5 ps"
    by (cases ?products) auto
  have "subseq (take 3 kept) kept" "subseq (take 5 ps) ps"
    by (simp_all add: prefix_imp_subseq take_is_prefix)
  with k(1) ps(2) have "subseq (take 3 kept) ps"
    using subseq_order.order_trans by blast
  moreover have "alts = map alternative_of (take 3 kept)"
    using alts k(2) by (simp add: take_map)
  moreover have "\<forall>a\<in>set alts. \<exists>va. get_eco_score_value (dict_get a ''eco_score'') = Inr va \<and> vc < va"
    using alts k(3) by (meson in_set_takeD)
  ultimately show ?thesis using d ps(1) vc by blast
qed

lemma fetch_alternatives_cases:
  assumes "fetch_alternatives w cat cur = (alts, calls)" and "alts \<noteq> []"
  shows "\<exists>c data. cat = JStr c \<and> http_get w (search_request c) = Inr data
           \<and> alternatives_of_search data cur = Inr alts"
  using assms
  by (auto simp: fetch_alternatives_def Let_def split: if_splits json.splits sum.splits)

lemma alternatives_of_search_length:
  "alternatives_of_search data cur = Inr alts \<Longrightarrow> length alts \<le> 3"
  by (auto simp: alternatives_of_search_def split: sum.splits)

lemma snack_eval:
  "fetch_alternatives
     (snack_world [graded ''p1'' ''a'', graded ''p2'' ''e'', graded ''p3'' ''b'',
        graded ''p4'' ''c'', graded ''p5'' ''a'', graded ''p6'' ''a''])
     (JStr ''snacks, sweet snacks'') (JStr ''d'')
   = ([alternative_of (graded ''p1'' ''a''), alternative_of (graded ''p3'' ''b''),
       alternative_of (graded ''p4'' ''c'')],
      [search_request ''snacks'']) "
  by code_simp

text \<open>
  Claim C4. Whatever the search answers and whatever the current grade is, every alternative
  that \<^verbatim>\<open>fetch_alternatives\<close> returns has a mapped eco-score strictly above the mapped eco-score
  of the current product, and the returned list is the image of a subsequence of the search
  results: their relative order is kept.
\<close>

theorem alternatives_strictly_better_in_order:
  assumes "fetch_alternatives w cat cur = (alts, calls)"
  shows "(\<forall>a\<in>set alts. \<exists>va vc. get_eco_score_value (dict_get a ''eco_score'') = Inr va
            \<and> get_eco_score_value cur = Inr vc \<and> vc < va)
         \<and> (\<exists>kept. subseq kept (search_results w cat) \<and> alts = map alternative_of kept)"
proof (cases "alts = []")
  case True
  then show ?thesis by simp
next
  case False
  from fetch_alternatives_cases [OF assms False] obtain c data where
    c: "cat = JStr c" "http_get w (search_request c) = Inr data"
      "alternatives_of_search data cur = Inr alts"
    by blast
  from alternatives_of_search_kept [OF c(3) False] obtain d ps kept vc where
    k: "data = JObj d" "dict_get_default d ''products'' (JList []) = JList ps"
      "subseq kept ps" "alts = map alternative_of kept" "get_eco_score_value cur = Inr vc"
      "\<forall>a\<in>set alts. \<exists>va. get_eco_score_value (dict_get a ''eco_score'') = Inr va \<and> vc < va"
    by blast
  have "search_results w cat = ps"
    using c k by (simp add: search_results_def)
  with k show ?thesis by blast
qed

theorem alternatives_strictly_better_in_order_witness:
  "fetch_alternatives
     (snack_world [graded ''p1'' ''a'', graded ''p2'' ''e'', graded ''p3'' ''b'',
        graded ''p4'' ''c'', graded ''p5'' ''a'', graded ''p6'' ''a''])
     (JStr ''snacks, sweet snacks'') (JStr ''d'')
   = ([alternative_of (graded ''p1'' ''a''), alternative_of (graded ''p3'' ''b''),
       alternative_of (graded ''p4'' ''c'')],
      [search_request ''snacks''])
   \<and> (\<exists>va vc. get_eco_score_value (dict_get (alternative_of (graded ''p3'' ''b'')) ''eco_score'') = Inr va
         \<and> get_eco_score_value (JStr ''d'') = Inr vc \<and> vc < va)
   \<and> (\<exists>kept. subseq kept (search_results
          (snack_world [graded ''p1'' ''a'', graded ''p2'' ''e'', graded ''p3'' ''b'',
             graded ''p4'' ''c'', graded ''p5'' ''a'', graded ''p6'' ''a''])
          (JStr ''snacks, sweet snacks''))
        \<and> [alternative_of (graded ''p1'' ''a''), alternative_of (graded ''p3'' ''b''),
            alternative_of (graded ''p4'' ''c'')] = map alternative_of kept)"
  using alternatives_strictly_better_in_order [OF snack_eval] snack_eval
  by simp

text \<open>
  Claim C5. The list that \<^verbatim>\<open>fetch_alternatives\<close> returns has at most three elements, and it
  is empty (and no call is made) when the category is absent (\<^verbatim>\<open>None\<close>) or the empty string.
\<close>

theorem alternatives_at_most_three:
  "length (fst (fetch_alternatives w cat cur)) \<le> 3
   \<and> (cat = JNull \<or> cat = JStr [] \<longrightarrow> fetch_alternatives w cat cur = ([], []))"
  by (auto simp: fetch_alternatives_def Let_def alternatives_of_search_length
      split: json.splits sum.splits)

theorem alternatives_at_most_three_witness:
  "length (fst (fetch_alternatives
      (snack_world [graded ''p1'' ''a'', graded ''p2'' ''e'', graded ''p3'' ''b'',
         graded ''p4'' ''c'', graded ''p5'' ''a'', graded ''p6'' ''a''])
      (JStr ''snacks, sweet snacks'') (JStr ''d''))) = 3
   \<and> fetch_alternatives (snack_world [graded ''p1'' ''a'']) JNull (JStr ''d'') = ([], [])
   \<and> fetch_alternatives (snack_world [graded ''p1'' ''a'']) (JStr []) (JStr ''d'') = ([], [])"
  using alternatives_at_most_three [of "snack_world [graded ''p1'' ''a'']" JNull "JStr ''d''"]
    alternatives_at_most_three [of "snack_world [graded ''p1'' ''a'']" "JStr []" "JStr ''d''"]
    snack_eval
  by simp

lemma get_eco_score_value_unknown:
  "g = JNull \<or> (\<exists>s. g = JStr s \<and> lower s \<notin> {''a'', ''b'', ''c'', ''d'', ''e''})
     \<Longrightarrow> get_eco_score_value g = Inr 50"
  by (auto simp: get_eco_score_value_def scores_def)

lemma get_eco_score_value_d: "get_eco_score_value (JStr ''d'') = Inr 45"
  by code_simp

lemma get_eco_score_value_e: "get_eco_score_value (JStr ''e'') = Inr 20"
  by code_simp

text \<open>
  Claim C8. When the grade of the current product is \<^verbatim>\<open>'d'\<close> or \<^verbatim>\<open>'e'\<close> (mapped to 45 or 20),
  a candidate whose grade is missing (the default \<^verbatim>\<open>''\<close>), null or a string outside the table
  maps to 50 and passes the filter: the search that finds this one candidate returns it, with
  the empty or unknown grade in its field \<^verbatim>\<open>eco_score\<close>.
\<close>

theorem unknown_grade_passes_filter:
  assumes cur: "cur = JStr ''d'' \<or> cur = JStr ''e''"
    and g: "g = JNull \<or> (\<exists>s. g = JStr s \<and> lower s \<notin> {''a'', ''b'', ''c'', ''d'', ''e''})"
    and cand: "dict_get_default d ''ecoscore_grade'' (JStr []) = g"
    and c: "c \<noteq> []"
    and ans: "http_get w (search_request c) = Inr (JObj [(''products'', JList [JObj d])])"
  shows "get_eco_score_value g = Inr 50
    \<and> (get_eco_score_value cur = Inr 45 \<or> get_eco_score_value cur = Inr 20)
    \<and> fst (fetch_alternatives w (JStr c) cur) = [alternative d g]
    \<and> dict_get (alternative d g) ''eco_score'' = g"
proof -
  have g50: "get_eco_score_value g = Inr 50"
    using g by (rule get_eco_score_value_unknown)
  from cur obtain vc where vc: "get_eco_score_value cur = Inr vc" "vc = 45 \<or> vc = 20"
    using get_eco_score_value_d get_eco_score_value_e by blast
  have "collect_alternatives vc [JObj d] = Inr [alternative d g]"
    using cand g50 vc(2) by (auto simp: Let_def)
  then have "alternatives_of_search (JObj [(''products'', JList [JObj d])]) cur = Inr [alternative d g]"
    using vc(1) by (simp add: alternatives_of_search_def py_get_def dict_get_default_def)
  then have "fst (fetch_alternatives w (JStr c) cur) = [alternative d g]"
    using c ans by (simp add: fetch_alternatives_def Let_def)
  with g50 vc show ?thesis
    by (auto simp: eco_score_of_alternative)
qed

theorem unknown_grade_passes_filter_witness:
  "get_eco_score_value (JStr ''unknown'') = Inr 50
   \<and> get_eco_score_value (JStr ''e'') = Inr 20
   \<and> fst (fetch_alternatives (snack_world [graded ''p1'' ''unknown'']) (JStr ''snacks'') (JStr ''e''))
       = [[(''name'', JStr ''p1''), (''brand'', JStr ''Unknown''), (''eco_score'', JStr ''unknown''),
           (''image_url'', JNull), (''gtin'', JNull)]]
   \<and> fst (fetch_alternatives (snack_world [JObj []]) (JStr ''snacks'') (JStr ''d''))
       = [[(''name'', JStr ''Unknown''), (''brand'', JStr ''Unknown''), (''eco_score'', JStr []),
           (''image_url'', JNull), (''gtin'', JNull)]]"
proof -
  have a: "lower ''unknown'' \<notin> {''a'', ''b'', ''c'', ''d'', ''e''}" "lower [] \<notin> {''a'', ''b'', ''c'', ''d'', ''e''}"
    by (simp_all add: lower_def)
  have b: "dict_get_default [(''product_name'', JStr ''p1''), (''ecoscore_grade'', JStr ''unknown'')]
      ''ecoscore_grade'' (JStr []) = JStr ''unknown''"
    "dict_get_default [] ''ecoscore_grade'' (JStr []) = JStr []"
    by (simp_all add: dict_get_default_def)
  have c: "http_get (snack_world [graded ''p1'' ''unknown'']) (search_request ''snacks'')
      = Inr (JObj [(''products'', JList [JObj [(''product_name'', JStr ''p1''), (''ecoscore_grade'', JStr ''unknown'')]])])"
    "http_get (snack_world [JObj []]) (search_request ''snacks'')
      = Inr (JObj [(''products'', JList [JObj []])])"
    by (simp_all add: snack_world_def graded_def)
  have "''snacks'' \<noteq> []" by simp
  from unknown_grade_passes_filter [OF _ _ b(1) this c(1), of "JStr ''e''"] a(1)
  have 1: "get_eco_score_value (JStr ''unknown'') = Inr 50
   \<and> get_eco_score_value (JStr ''e'') = Inr 20
   \<and> fst (fetch_alternatives (snack_world [graded ''p1'' ''unknown'']) (JStr ''snacks'') (JStr ''e''))
       = [[(''name'', JStr ''p1''), (''brand'', JStr ''Unknown''), (''eco_score'', JStr ''unknown''),
           (''image_url'', JNull), (''gtin'', JNull)]]"
    by (simp add: alternative_def dict_get_default_def dict_get_def get_eco_score_value_e)
  have "''snacks'' \<noteq> []" by simp
  from unknown_grade_passes_filter [OF _ _ b(2) this c(2), of "JStr ''d''"] a(2)
  have 2: "fst (fetch_alternatives (snack_world [JObj []]) (JStr ''snacks'') (JStr ''d''))
       = [[(''name'', JStr ''Unknown''), (''brand'', JStr ''Unknown''), (''eco_score'', JStr []),
           (''image_url'', JNull), (''gtin'', JNull)]]"
    by (simp add: alternative_def dict_get_default_def dict_get_def)
  from 1 2 show ?thesis by simp
qed

section \<open>Properties: the scorer\<close>

text \<open>
  The format \<^verbatim>\<open>.2f\<close> of the model shows a figure that is not negative to two decimal places:
  its text reads back as the figure rounded to hundredths.
\<close>

lemma digit_chars:
  "map (\<lambda>d. char_of (48 + d)) [0, 1, 2, 3, 4, 5, 6, 7, 8, 9 :: int] = ''0123456789''"
  by code_simp

lemma digit_of_char_of:
  assumes "0 \<le> d" "d < 10"
  shows "digit_of (char_of (48 + d)) = Some (d :: int)"
proof -
  from assms have "d = 0 \<or> d = 1 \<or> d = 2 \<or> d = 3 \<or> d = 4 \<or> d = 5 \<or> d = 6 \<or> d = 7 \<or> d = 8 \<or> d = 9"
    by arith
  then show ?thesis
    using digit_chars by (auto simp: digit_of_def)
qed

lemma digits_nonempty: "digits n \<noteq> []"
  by (subst digits.simps) simp

lemma read_digits_append:
  "read_digits acc (xs @ ys) = (case read_digits acc xs of None \<Rightarrow> None | Some a \<Rightarrow> read_digits a ys)"
  by (induction xs arbitrary: acc) (auto split: option.splits)

lemma read_digits_digits:
  "0 \<le> n \<Longrightarrow> \<exists>k. \<forall>acc. read_digits acc (digits n) = Some (acc * 10 ^ k + n)"
proof (induction n rule: digits.induct)
  case (1 n)
  show ?case
  proof (cases "n < 10")
    case True
    with "1.prems" have "digit_of (char_of (48 + n)) = Some n"
      by (simp add: digit_of_char_of)
    with True have "\<forall>acc. read_digits acc (digits n) = Some (acc * 10 ^ 1 + n)"
      by (subst digits.simps) simp
    then show ?thesis by blast
  next
    case False
    with "1.prems" have "0 \<le> n div 10" by simp
    with "1.IH" False obtain k where
      k: "\<forall>acc. read_digits acc (digits (n div 10)) = Some (acc * 10 ^ k + n div 10)"
      by blast
    have d: "digit_of (char_of (48 + n mod 10)) = Some (n mod 10)"
      by (simp add: digit_of_char_of)
    have "read_digits acc (digits n) = Some (acc * 10 ^ Suc k + n)" for acc
    proof -
      have "digits n = digits (n div 10) @ [char_of (48 + n mod 10)]"
        using False by (subst digits.simps) simp
      then have "read_digits acc (digits n) = Some ((acc * 10 ^ k + n div 10) * 10 + n mod 10)"
        using k d by (simp add: read_digits_append)
      also have "(acc * 10 ^ k + n div 10) * 10 + n mod 10 = acc * 10 ^ Suc k + n"
        by (simp add: algebra_simps)
      finally show ?thesis .
    qed
    then show ?thesis by blast
  qed
qed

lemma natural_of_digits: "0 \<le> n \<Longrightarrow> natural_of (digits n) = Some n"
  using read_digits_digits [of n] by (auto simp: natural_of_def digits_nonempty)

lemma round_half_even_near: "\<bar>of_int (round_half_even q) - q\<bar> \<le> 1 / 2"
proof -
  have "of_int \<lfloor>q\<rfloor> \<le> q" "q < of_int \<lfloor>q\<rfloor> + 1"
    by linarith+
  then show ?thesis
    by (auto simp: round_half_even_def Let_def)
qed

lemma round_half_even_nonneg: "0 \<le> q \<Longrightarrow> 0 \<le> round_half_even q"
  by (auto simp: round_half_even_def Let_def)

lemma two_decimal_value_fixed2:
  assumes "0 \<le> r"
  shows "two_decimal_value (fixed2 r) = Some (of_int (round_half_even (r * 100)) / 100)"
proof -
  define n where "n = round_half_even (r * 100)"
  have n0: "0 \<le> n"
    using assms by (simp add: n_def round_half_even_nonneg)
  let ?c1 = "char_of (48 + n mod 100 div 10) :: char" and ?c2 = "char_of (48 + n mod 10) :: char"
  have f: "fixed2 r = digits (n div 100) @ [CHR ''.'', ?c1, ?c2]"
    using assms by (simp add: fixed2_def n_def Let_def)
  have a: "natural_of (digits (n div 100)) = Some (n div 100)"
    using n0 by (simp add: natural_of_digits)
  have d1: "digit_of ?c1 = Some (n mod 100 div 10)"
    using n0 by (intro digit_of_char_of) auto
  have d2: "digit_of ?c2 = Some (n mod 10)"
    by (intro digit_of_char_of) auto
  have "two_decimal_value (fixed2 r)
      = Some (of_int (n div 100) + of_int (10 * (n mod 100 div 10) + n mod 10) / 100)"
    by (simp add: two_decimal_value_def f a d1 d2)
  also have "10 * (n mod 100 div 10) + n mod 10 = n mod 100"
  proof -
    have "n mod 100 mod 10 = n mod 10"
      by (simp add: mod_mod_cancel)
    moreover have "10 * (n mod 100 div 10) + n mod 100 mod 10 = n mod 100"
      by (rule mult_div_mod_eq)
    ultimately show ?thesis by simp
  qed
  also have "(of_int (n div 100) :: rat) + of_int (n mod 100) / 100 = of_int n / 100"
  proof -
    have "n = 100 * (n div 100) + n mod 100" by simp
    then have "(of_int n :: rat) = of_int (100 * (n div 100) + n mod 100)"
      by simp
    then have "(of_int n :: rat) = 100 * of_int (n div 100) + of_int (n mod 100)"
      by (simp only: of_int_add of_int_mult of_int_numeral)
    then show ?thesis by simp
  qed
  finally show ?thesis by (simp add: n_def)
qed

lemma fixed2_shows:
  assumes "0 \<le> r"
  shows "\<exists>q. two_decimal_value (fixed2 r) = Some q \<and> \<bar>q - r\<bar> \<le> 1 / 200"
proof -
  have "\<bar>of_int (round_half_even (r * 100)) - r * 100\<bar> \<le> 1 / 2"
    by (rule round_half_even_near)
  then have "\<bar>of_int (round_half_even (r * 100)) / 100 - r\<bar> \<le> 1 / 200"
    by (simp add: abs_le_iff field_simps)
  with two_decimal_value_fixed2 [OF assms] show ?thesis by blast
qed

lemma shows_fixed2:
  "2 < i \<Longrightarrow> shows_figure (JInt i) (fixed2 (of_int i))"
  "2 < r \<Longrightarrow> shows_figure (JFloat (Finite r)) (fixed2 r)"
  using fixed2_shows [of "of_int i"] fixed2_shows [of r] by auto

text \<open>
  A string lowercases to \<^verbatim>\<open>plastic\<close> exactly when it is one of the spellings of the word in
  lower and upper case.
\<close>

lemma char_lower_cases:
  "char_lower c = c \<or> (of_char (char_lower c) :: nat) = of_char c + 32"
proof -
  have "(of_char c :: nat) \<le> 222 \<Longrightarrow> (of_char c + 32 :: nat) mod 256 = of_char c + 32"
    by simp
  then show ?thesis
    by (auto simp: char_lower_def Let_def)
qed

lemma lower_is_letter:
  assumes "char_lower c = l" and "(of_char u :: nat) + 32 = of_char l"
  shows "c = l \<or> c = u"
proof -
  from char_lower_cases [of c] assms(1)
  have "c = l \<or> (of_char l :: nat) = of_char c + 32" by auto
  with assms(2) have "c = l \<or> (of_char c :: nat) = of_char u" by auto
  then show ?thesis by (auto dest: char_of_code)
qed

lemma lower_p: "char_lower c = CHR ''p'' \<Longrightarrow> c \<in> set ''pP''"
  using lower_is_letter [of c "CHR ''p''" "CHR ''P''"] by auto

lemma lower_l: "char_lower c = CHR ''l'' \<Longrightarrow> c \<in> set ''lL''"
  using lower_is_letter [of c "CHR ''l''" "CHR ''L''"] by auto

lemma lower_a: "char_lower c = CHR ''a'' \<Longrightarrow> c \<in> set ''aA''"
  using lower_is_letter [of c "CHR ''a''" "CHR ''A''"] by auto

lemma lower_s: "char_lower c = CHR ''s'' \<Longrightarrow> c \<in> set ''sS''"
  using lower_is_letter [of c "CHR ''s''" "CHR ''S''"] by auto

lemma lower_t: "char_lower c = CHR ''t'' \<Longrightarrow> c \<in> set ''tT''"
  using lower_is_letter [of c "CHR ''t''" "CHR ''T''"] by auto

lemma lower_i: "char_lower c = CHR ''i'' \<Longrightarrow> c \<in> set ''iI''"
  using lower_is_letter [of c "CHR ''i''" "CHR ''I''"] by auto

lemma lower_c: "char_lower c = CHR ''c'' \<Longrightarrow> c \<in> set ''cC''"
  using lower_is_letter [of c "CHR ''c''" "CHR ''C''"] by auto

lemma spelling_of_plastic:
  assumes "lower u = ''plastic''"
  shows "u \<in> set plastic_spellings"
proof -
  from assms obtain u1 u2 u3 u4 u5 u6 u7 where u: "u = [u1, u2, u3, u4, u5, u6, u7]"
    and l: "char_lower u1 = CHR ''p''" "char_lower u2 = CHR ''l''" "char_lower u3 = CHR ''a''"
      "char_lower u4 = CHR ''s''" "char_lower u5 = CHR ''t''" "char_lower u6 = CHR ''i''"
      "char_lower u7 = CHR ''c''"
    by (auto simp: lower_def map_eq_Cons_conv)
  show ?thesis
    unfolding plastic_spellings_def product_lists_set u
    using lower_p [OF l(1)] lower_l [OF l(2)] lower_a [OF l(3)] lower_s [OF l(4)]
      lower_t [OF l(5)] lower_i [OF l(6)] lower_c [OF l(7)]
    by simp
qed

lemma lower_capitals:
  "char_lower CHR ''P'' = CHR ''p''" "char_lower CHR ''L'' = CHR ''l''"
  "char_lower CHR ''A'' = CHR ''a''" "char_lower CHR ''S'' = CHR ''s''"
  "char_lower CHR ''T'' = CHR ''t''" "char_lower CHR ''I'' = CHR ''i''"
  "char_lower CHR ''C'' = CHR ''c''"
  "char_lower CHR ''p'' = CHR ''p''" "char_lower CHR ''l'' = CHR ''l''"
  "char_lower CHR ''a'' = CHR ''a''" "char_lower CHR ''s'' = CHR ''s''"
  "char_lower CHR ''t'' = CHR ''t''" "char_lower CHR ''i'' = CHR ''i''"
  "char_lower CHR ''c'' = CHR ''c''"
  by code_simp+

lemma lower_of_choices:
  assumes "list_all2 (\<lambda>c choice. c \<in> set choice) u choices"
    and "list_all2 (\<lambda>choice l. \<forall>c\<in>set choice. char_lower c = l) choices ls"
  shows "lower u = ls"
  using assms
proof (induction u choices arbitrary: ls rule: list_all2_induct)
  case Nil
  then show ?case by (simp add: lower_def)
next
  case (Cons c u choice choices)
  from Cons.prems obtain l ls' where ls: "ls = l # ls'" "\<forall>c\<in>set choice. char_lower c = l"
    "list_all2 (\<lambda>choice l. \<forall>c\<in>set choice. char_lower c = l) choices ls'"
    by (auto simp: list_all2_Cons1)
  from Cons.IH [OF ls(3)] Cons.hyps(1) ls(1,2) show ?case
    by (simp add: lower_def)
qed

lemma plastic_of_spelling:
  assumes "u \<in> set plastic_spellings"
  shows "lower u = ''plastic''"
proof -
  from assms
  have "list_all2 (\<lambda>c choice. c \<in> set choice) u [''pP'', ''lL'', ''aA'', ''sS'', ''tT'', ''iI'', ''cC'']"
    unfolding plastic_spellings_def product_lists_set by simp
  moreover have "list_all2 (\<lambda>choice l. \<forall>c\<in>set choice. char_lower c = l)
      [''pP'', ''lL'', ''aA'', ''sS'', ''tT'', ''iI'', ''cC''] ''plastic''"
    by (simp add: lower_capitals)
  ultimately show ?thesis
    by (rule lower_of_choices)
qed

lemma sublist_lower: "sublist u s \<Longrightarrow> sublist (lower u) (lower s)"
proof -
  assume "sublist u s"
  then obtain ps ss where "s = ps @ u @ ss"
    by (auto simp: sublist_def)
  then have "lower s = lower ps @ lower u @ lower ss"
    by (simp add: lower_def)
  then show ?thesis
    unfolding sublist_def by blast
qed

lemma sublist_of_lower:
  assumes "sublist x (lower s)"
  shows "\<exists>u. sublist u s \<and> lower u = x"
proof -
  from assms obtain ps ss where "map char_lower s = ps @ x @ ss"
    by (auto simp: sublist_def lower_def)
  then obtain ps' r where r: "s = ps' @ r" "map char_lower r = x @ ss"
    by (metis map_eq_append_conv)
  then obtain u ss' where u: "r = u @ ss'" "map char_lower u = x"
    by (metis map_eq_append_conv)
  from r(1) u(1) have "sublist u s"
    unfolding sublist_def by blast
  with u(2) show ?thesis
    by (auto simp: lower_def)
qed

lemma sublist_lower_plastic:
  "sublist ''plastic'' (lower s) \<longleftrightarrow> (\<exists>u\<in>set plastic_spellings. sublist u s)"
proof
  assume "sublist ''plastic'' (lower s)"
  then obtain u where "sublist u s" "lower u = ''plastic''"
    using sublist_of_lower by blast
  then show "\<exists>u\<in>set plastic_spellings. sublist u s"
    using spelling_of_plastic by blast
next
  assume "\<exists>u\<in>set plastic_spellings. sublist u s"
  then obtain u where "u \<in> set plastic_spellings" "sublist u s" by blast
  then show "sublist ''plastic'' (lower s)"
    using plastic_of_spelling [of u] sublist_lower [of u s] by simp
qed

lemma str_contains_sublist: "str_contains sub s = sublist sub s"
  by (induction s) (simp_all add: sublist_Cons_right)

lemma any_plastic_strings:
  "list_all is_str ts \<Longrightarrow> any_plastic ts = Inr (list_ex mentions_plastic ts)"
  by (induction ts)
    (auto simp: is_str_def mentions_plastic_def str_contains_sublist sublist_lower_plastic
      list_ex_iff split: json.splits)

lemma carbon_recommendation_rule:
  assumes "figure_well_formed cf"
  shows "\<exists>shown. (exceeds_threshold cf \<longrightarrow> shows_figure cf shown)
           \<and> carbon_recommendation cf = Inr (rule_carbon cf shown)"
proof (cases "exceeds_threshold cf")
  case False
  with assms have "carbon_recommendation cf = Inr []"
    by (cases cf rule: exceeds_threshold.cases)
      (auto simp: carbon_recommendation_def CARBON_THRESHOLD_def split: if_splits)
  with False show ?thesis
    by (simp add: rule_carbon_def)
next
  case True
  then consider (int) i where "cf = JInt i" "2 < i"
    | (float) r where "cf = JFloat (Finite r)" "2 < r"
    | (inf) "cf = JFloat PosInf"
    by (cases cf rule: exceeds_threshold.cases) auto
  then show ?thesis
  proof cases
    case int
    with assms have "carbon_recommendation cf = Inr (rule_carbon cf (fixed2 (of_int i)))"
      by (simp add: carbon_recommendation_def rule_carbon_def CARBON_THRESHOLD_def int_to_float_def)
    with int shows_fixed2(1) show ?thesis by blast
  next
    case float
    then have "carbon_recommendation cf = Inr (rule_carbon cf (fixed2 r))"
      by (simp add: carbon_recommendation_def rule_carbon_def CARBON_THRESHOLD_def)
    with float shows_fixed2(2) show ?thesis by blast
  next
    case inf
    then have "carbon_recommendation cf = Inr (rule_carbon cf ''inf'')"
      by (simp add: carbon_recommendation_def rule_carbon_def CARBON_THRESHOLD_def)
    with inf show ?thesis by (metis shows_figure.simps(3))
  qed
qed

lemma eco_recommendation_rule:
  "eco_recommendation (dict_get_default p ''ecoscore_grade'' (JStr [])) = rule_eco_grade p"
  by (auto simp: eco_recommendation_def rule_eco_grade_def py_in_def dict_get_default_def
      split: option.splits)

lemma upper_grades: "upper ''d'' = ''D''" "upper ''e'' = ''E''"
  by code_simp+

lemma nutrition_recommendation_rule:
  "nutrition_recommendation (dict_get_default p ''nutriscore_grade'' (JStr [])) = rule_nutrition_grade p"
  by (auto simp: nutrition_recommendation_def rule_nutrition_grade_def py_in_def dict_get_default_def
      upper_grades split: option.splits)

lemma packaging_rule:
  assumes "tags_well_formed p"
  shows "\<exists>tags. py_iter (dict_get_default p ''packaging_tags'' (JList [])) = Inr tags
           \<and> any_plastic tags = Inr (list_ex mentions_plastic (packaging_tags p))"
  using assms
  by (auto simp: tags_well_formed_def packaging_tags_def dict_get_default_def any_plastic_strings
      split: option.splits json.splits)

lemma biscuits_eval:
  "generate_recommendations biscuits (JFloat (Finite (17 / 8))) = Inr biscuits_recommendations"
  by code_simp

text \<open>
  Claim C2, for the inputs of the data model. When the packaging tags of the product, if it
  has them, are a list of strings, and the carbon figure is \<^verbatim>\<open>None\<close>, a float, or an int or bool
  that \<^verbatim>\<open>float\<close> represents exactly, the scorer returns, and what it returns is the sequence
  of the four rules evaluated in the order carbon, eco grade, nutrition grade, packaging, each
  rule that fires contributing its one recommendation, or the default recommendation alone
  when no rule fires. The text of the carbon entry shows the figure to two decimal places.
\<close>

theorem scorer_follows_rules_in_order:
  assumes "tags_well_formed p" and "figure_well_formed cf"
  shows "\<exists>shown. (exceeds_threshold cf \<longrightarrow> shows_figure cf shown)
           \<and> generate_recommendations p cf = Inr (rules_in_order p cf shown)"
proof -
  from packaging_rule [OF assms(1)] obtain tags where
    tags: "py_iter (dict_get_default p ''packaging_tags'' (JList [])) = Inr tags"
      "any_plastic tags = Inr (list_ex mentions_plastic (packaging_tags p))"
    by blast
  from carbon_recommendation_rule [OF assms(2)] obtain shown where
    shown: "exceeds_threshold cf \<longrightarrow> shows_figure cf shown"
      "carbon_recommendation cf = Inr (rule_carbon cf shown)"
    by blast
  have "generate_recommendations p cf = Inr (rules_in_order p cf shown)"
    unfolding generate_recommendations_def rules_in_order_def rule_packaging_def
    by (auto simp: Let_def shown(2) eco_recommendation_rule nutrition_recommendation_rule tags
        plastic_recommendation_def default_recommendation_def)
  with shown(1) show ?thesis by blast
qed

theorem scorer_follows_rules_in_order_witness:
  "tags_well_formed biscuits \<and> figure_well_formed (JFloat (Finite (17 / 8)))
   \<and> generate_recommendations biscuits (JFloat (Finite (17 / 8))) = Inr biscuits_recommendations
   \<and> (\<exists>shown. shows_figure (JFloat (Finite (17 / 8))) shown
         \<and> rules_in_order biscuits (JFloat (Finite (17 / 8))) shown = biscuits_recommendations)"
proof -
  have t: "tags_well_formed biscuits"
    by code_simp
  have f: "figure_well_formed (JFloat (Finite (17 / 8)))"
    by simp
  have e: "exceeds_threshold (JFloat (Finite (17 / 8)))"
    by simp
  from scorer_follows_rules_in_order [OF t f] e biscuits_eval t f
  show ?thesis by auto
qed

text \<open>
  The statement does not extend to every product dictionary and every carbon figure:
  outside the data model the scorer raises where the rules give a sequence. \<^verbatim>\<open>None\<close> as the
  packaging tags cannot be iterated (the rules give the default recommendation), a tag that
  is a number has no \<^verbatim>\<open>lower\<close>, and a figure that is a string has no order with a float.
  An int beyond \<open>2 ^ 53\<close> is printed as the float nearest to it, which is another number.
\<close>

theorem scorer_raises_outside_data_model:
  "generate_recommendations [(''packaging_tags'', JNull)] (JInt 0) = Inl TypeError
   \<and> rules_in_order [(''packaging_tags'', JNull)] (JInt 0) []
       = [\<lparr>icon = CheckMark, text = ''This product has acceptable sustainability metrics'',
            priority = ''low''\<rparr>]
   \<and> generate_recommendations [(''packaging_tags'', JList [JInt 1])] (JInt 0) = Inl AttributeError
   \<and> generate_recommendations [] (JStr ''3.5'') = Inl TypeError
   \<and> generate_recommendations [] (JInt 9007199254740993)
       = Inr [\<lparr>icon = Globe,
                text = ''High carbon footprint (9007199254740992.00 kg CO2e). Consider eco-friendly alternatives below.'',
                priority = ''high''\<rparr>]
   \<and> \<not> shows_figure (JInt 9007199254740993) ''9007199254740992.00''"
  by code_simp

lemma generate_recommendations_Inr:
  assumes "generate_recommendations p cf = Inr rs"
  shows "\<exists>r1 b. carbon_recommendation cf = Inr r1
           \<and> rs = (let fired = r1 @ eco_recommendation (dict_get_default p ''ecoscore_grade'' (JStr []))
                        @ nutrition_recommendation (dict_get_default p ''nutriscore_grade'' (JStr []))
                        @ (if b then [plastic_recommendation] else [])
                   in if fired = [] then [default_recommendation] else fired)"
proof -
  let ?packaging = "dict_get_default p ''packaging_tags'' (JList [])"
  from assms obtain r1 where r1: "carbon_recommendation cf = Inr r1"
    by (cases "carbon_recommendation cf") (simp_all add: generate_recommendations_def)
  from assms r1 obtain tags where tags: "py_iter ?packaging = Inr tags"
    by (cases "py_iter ?packaging") (simp_all add: generate_recommendations_def)
  from assms r1 tags obtain b where b: "any_plastic tags = Inr b"
    by (cases "any_plastic tags") (simp_all add: generate_recommendations_def)
  from assms r1 tags b
  have "rs = (let fired = r1 @ eco_recommendation (dict_get_default p ''ecoscore_grade'' (JStr []))
                        @ nutrition_recommendation (dict_get_default p ''nutriscore_grade'' (JStr []))
                        @ (if b then [plastic_recommendation] else [])
              in if fired = [] then [default_recommendation] else fired)"
    by (cases b) (auto simp: generate_recommendations_def Let_def split: if_splits)
  with r1 show ?thesis by blast
qed

lemma carbon_recommendation_warning:
  "carbon_recommendation cf = Inr r1 \<Longrightarrow> x \<in> set r1 \<Longrightarrow> is_carbon_warning x"
  by (auto simp: carbon_recommendation_def is_carbon_warning_def split: if_splits sum.splits bool.splits)

lemma carbon_recommendation_fires:
  "carbon_recommendation cf = Inr r1 \<Longrightarrow> r1 \<noteq> [] \<longleftrightarrow> truthy cf \<and> py_gt cf CARBON_THRESHOLD = Inr True"
  by (auto simp: carbon_recommendation_def split: if_splits sum.splits bool.splits)

lemma other_rules_no_warning:
  "x \<in> set (eco_recommendation e) \<Longrightarrow> \<not> is_carbon_warning x"
  "x \<in> set (nutrition_recommendation n) \<Longrightarrow> \<not> is_carbon_warning x"
  "\<not> is_carbon_warning plastic_recommendation"
  "\<not> is_carbon_warning default_recommendation"
  by (auto simp: eco_recommendation_def nutrition_recommendation_def plastic_recommendation_def
      default_recommendation_def is_carbon_warning_def split: if_splits)

lemma warning_iff_carbon_rule:
  assumes "generate_recommendations p cf = Inr rs"
  shows "(\<exists>x\<in>set rs. is_carbon_warning x) \<longleftrightarrow> truthy cf \<and> py_gt cf CARBON_THRESHOLD = Inr True"
proof -
  from generate_recommendations_Inr [OF assms] obtain r1 b where
    r1: "carbon_recommendation cf = Inr r1"
    and rs: "rs = (let fired = r1 @ eco_recommendation (dict_get_default p ''ecoscore_grade'' (JStr []))
                        @ nutrition_recommendation (dict_get_default p ''nutriscore_grade'' (JStr []))
                        @ (if b then [plastic_recommendation] else [])
                   in if fired = [] then [default_recommendation] else fired)"
    by blast
  have "(\<exists>x\<in>set rs. is_carbon_warning x) \<longleftrightarrow> r1 \<noteq> []"
  proof
    assume "\<exists>x\<in>set rs. is_carbon_warning x"
    then obtain x where x: "x \<in> set rs" "is_carbon_warning x" by blast
    show "r1 \<noteq> []"
    proof
      assume "r1 = []"
      with rs x(1) have "x \<in> set (eco_recommendation (dict_get_default p ''ecoscore_grade'' (JStr [])))
          \<or> x \<in> set (nutrition_recommendation (dict_get_default p ''nutriscore_grade'' (JStr [])))
          \<or> x = plastic_recommendation \<or> x = default_recommendation"
        by (auto simp: Let_def split: if_splits)
      with x(2) show False
        using other_rules_no_warning by blast
    qed
  next
    assume ne: "r1 \<noteq> []"
    then obtain x where x: "x \<in> set r1" by (cases r1) auto
    with rs ne have "x \<in> set rs" by (auto simp: Let_def)
    moreover have "is_carbon_warning x"
      using r1 x by (rule carbon_recommendation_warning)
    ultimately show "\<exists>x\<in>set rs. is_carbon_warning x" by blast
  qed
  with carbon_recommendation_fires [OF r1] show ?thesis by simp
qed

lemma eco_recommendation_upper: "char_isupper c \<Longrightarrow> eco_recommendation (JStr [c]) = []"
  by (auto simp: eco_recommendation_def py_in_def char_isupper_def)

lemma get_eco_score_value_D: "get_eco_score_value (JStr ''D'') = Inr 45"
  by code_simp

text \<open>
  Claim C9. For a product whose \<^verbatim>\<open>ecoscore_grade\<close> is one uppercase letter, the eco-grade step
  of the scorer adds nothing, and no list that the scorer returns holds the recommendation
  of the low or of the good environmental score: the membership tests compare the grade as it
  is with lowercase letters. \<^verbatim>\<open>get_eco_score_value\<close>, which lowercases, maps \<^verbatim>\<open>'D'\<close> to 45.
\<close>

theorem uppercase_grade_gets_no_eco_recommendation:
  assumes "map_of p ''ecoscore_grade'' = Some (JStr [c])" and "char_isupper c"
  shows "eco_recommendation (dict_get_default p ''ecoscore_grade'' (JStr [])) = []
    \<and> (\<forall>rs. generate_recommendations p cf = Inr rs \<longrightarrow>
          (\<forall>r\<in>set rs.
             text r \<noteq> ''Low environmental score - look for products with better eco ratings''
           \<and> text r \<noteq> ''Good environmental score! This product has lower environmental impact''))
    \<and> get_eco_score_value (JStr ''D'') = Inr 45"
proof -
  have eco: "eco_recommendation (dict_get_default p ''ecoscore_grade'' (JStr [])) = []"
    using assms by (simp add: dict_get_default_def eco_recommendation_upper)
  have "text r \<noteq> ''Low environmental score - look for products with better eco ratings''
      \<and> text r \<noteq> ''Good environmental score! This product has lower environmental impact''"
    if rs: "generate_recommendations p cf = Inr rs" and r: "r \<in> set rs" for rs r
  proof -
    from generate_recommendations_Inr [OF rs] obtain r1 b where
      r1: "carbon_recommendation cf = Inr r1"
      and eq: "rs = (let fired = r1 @ eco_recommendation (dict_get_default p ''ecoscore_grade'' (JStr []))
                        @ nutrition_recommendation (dict_get_default p ''nutriscore_grade'' (JStr []))
                        @ (if b then [plastic_recommendation] else [])
                   in if fired = [] then [default_recommendation] else fired)"
      by blast
    from eq r eco have "r \<in> set r1
        \<or> r \<in> set (nutrition_recommendation (dict_get_default p ''nutriscore_grade'' (JStr [])))
        \<or> r = plastic_recommendation \<or> r = default_recommendation"
      by (auto simp: Let_def split: if_splits)
    then show ?thesis
    proof (elim disjE)
      assume "r \<in> set r1"
      with r1 have "is_carbon_warning r" by (rule carbon_recommendation_warning)
      then show ?thesis by (auto simp: is_carbon_warning_def)
    next
      assume "r \<in> set (nutrition_recommendation (dict_get_default p ''nutriscore_grade'' (JStr [])))"
      then show ?thesis by (auto simp: nutrition_recommendation_def split: if_splits)
    next
      assume "r = plastic_recommendation"
      then show ?thesis by (simp add: plastic_recommendation_def)
    next
      assume "r = default_recommendation"
      then show ?thesis by (simp add: default_recommendation_def)
    qed
  qed
  with eco show ?thesis
    by (simp add: get_eco_score_value_D)
qed

theorem uppercase_grade_gets_no_eco_recommendation_witness:
  "map_of [(''ecoscore_grade'', JStr ''D'')] ''ecoscore_grade'' = Some (JStr ''D'')
   \<and> char_isupper CHR ''D''
   \<and> generate_recommendations [(''ecoscore_grade'', JStr ''D'')] (JInt 0) = Inr [default_recommendation]
   \<and> eco_recommendation (JStr ''D'') = []
   \<and> eco_recommendation (JStr ''d'') \<noteq> []
   \<and> text default_recommendation
        \<noteq> ''Low environmental score - look for products with better eco ratings''
   \<and> get_eco_score_value (JStr ''D'') = Inr 45"
proof -
  have m: "map_of [(''ecoscore_grade'', JStr ''D'')] ''ecoscore_grade'' = Some (JStr ''D'')"
    by simp
  have u: "char_isupper CHR ''D''"
    by (simp add: char_isupper_def)
  have e: "generate_recommendations [(''ecoscore_grade'', JStr ''D'')] (JInt 0) = Inr [default_recommendation]"
    by code_simp
  have d: "eco_recommendation (JStr ''d'') \<noteq> []"
    by (simp add: eco_recommendation_def py_in_def)
  from uppercase_grade_gets_no_eco_recommendation [OF m u, of "JInt 0"] m u e d
  show ?thesis
    by (auto simp: dict_get_default_def)
qed

section \<open>Properties: the endpoints\<close>


lemma product_report_Inr:
  assumes "product_report w u req g pobj = (Inr r, calls)"
  shows "\<exists>p cf has h recs. pobj = JObj p \<and> extract_carbon p = Inr (cf, has)
           \<and> high_carbon cf = Inr h
           \<and> generate_recommendations p (py_or cf (JInt 0)) = Inr recs
           \<and> carbon_footprint r = cf \<and> is_high_carbon r = h \<and> recommendations r = recs
           \<and> status r = ''success'' \<and> gtin r = Some g"
  using assms
  by (auto simp: product_report_def Let_def split: json.splits sum.splits prod.splits if_splits)

lemma lookup_product_Inr:
  assumes "lookup_product w u m g = (Inr r, calls)"
  shows "r = not_found_response (Some g) m
         \<or> (\<exists>d. http_get w (Get (OFF_BASE_URL @ g) []) = Inr (JObj d)
               \<and> product_report w u (Get (OFF_BASE_URL @ g) []) g (dict_get d ''product'') = (Inr r, calls))"
  using assms
  by (auto simp: lookup_product_def Let_def product_missing_def split: json.splits sum.splits bool.splits)

lemma endpoint_Inr:
  assumes "scan_product w image_data = (Inr r, calls) \<or> get_product w b = (Inr r, calls)"
  shows "(\<exists>g m. r = not_found_response g m) \<or> (\<exists>u m g. lookup_product w u m g = (Inr r, calls))"
  using assms
  by (auto simp: scan_product_def get_product_def split: if_splits option.splits)

lemma not_found_fields:
  "is_high_carbon (not_found_response g m) = False"
  "carbon_footprint (not_found_response g m) = JNull"
  "recommendations (not_found_response g m) = []"
  "status (not_found_response g m) = ''not_found''"
  by (simp_all add: not_found_response_def)



text \<open>
  An answer that is not a JSON object, or a product that is neither empty nor an object, has
  no \<^verbatim>\<open>get\<close>: the exception is not caught by the endpoint.
\<close>

lemma non_object_answer_is_uncaught:
  assumes "http_get w (Get (OFF_BASE_URL @ g) []) = Inr (JList xs)"
    and "\<not> invalid_barcode_format g"
  shows "get_product w g = (Inl (Uncaught AttributeError), [Get (OFF_BASE_URL @ g) []])"
  using assms by (simp add: get_product_def lookup_product_def product_missing_def)

lemma non_object_product_is_uncaught:
  assumes "http_get w (Get (OFF_BASE_URL @ g) []) = Inr (JObj [(''status'', JInt 1), (''product'', JStr ''x'')])"
    and "\<not> invalid_barcode_format g"
  shows "get_product w g = (Inl (Uncaught AttributeError), [Get (OFF_BASE_URL @ g) []])"
  using assms
  by (simp add: get_product_def lookup_product_def product_missing_def dict_get_def product_report_def)


lemma extract_carbon_nested:
  "extract_carbon p = Inr (cf, has) \<Longrightarrow> dict_get d ''product'' = JObj p \<Longrightarrow>
     cf = nested_co2_total (JObj d)"
  by (auto simp: extract_carbon_def nested_co2_total_def Let_def dict_get_def dict_get_default_def
      py_get_def split: if_splits option.splits json.splits sum.splits)

lemma high_carbon_exceeds: "high_carbon cf = Inr h \<Longrightarrow> h = exceeds_threshold cf"
  by (cases cf rule: exceeds_threshold.cases)
    (auto simp: high_carbon_def CARBON_THRESHOLD_def split: if_splits)

lemma crisps_eval:
  "get_product (shop_world crisps [graded ''Popcorn'' ''b'', graded ''Puffs'' ''e'']) ''12345678''
   = (Inr crisps_response, [Get (OFF_BASE_URL @ ''12345678'') [], search_request ''snacks''])"
  by code_simp

lemma apple_eval:
  "scan_product (shop_world apple []) [1]
   = (Inr apple_response, [Get (OFF_BASE_URL @ ''12345678'') []])"
  by code_simp

text \<open>
  Claim C1. In every response that either endpoint returns, \<^verbatim>\<open>is_high_carbon\<close> is true if and
  only if a carbon figure was extracted (the field \<^verbatim>\<open>carbon_footprint\<close> is not \<^verbatim>\<open>None\<close>) and
  that figure is strictly greater than 2.0. A figure that was extracted is the entry
  \<^verbatim>\<open>co2_total\<close> under \<^verbatim>\<open>ecoscore_data\<close> and \<^verbatim>\<open>agribalyse\<close> of the product that the lookup found.
\<close>

theorem carbon_flag_invariant:
  assumes "scan_product w image_data = (Inr r, calls) \<or> get_product w b = (Inr r, calls)"
  shows "(is_high_carbon r \<longleftrightarrow> carbon_footprint r \<noteq> JNull \<and> exceeds_threshold (carbon_footprint r))
       \<and> (carbon_footprint r \<noteq> JNull \<longrightarrow>
            (\<exists>g data. gtin r = Some g \<and> http_get w (Get (OFF_BASE_URL @ g) []) = Inr data
               \<and> carbon_footprint r = nested_co2_total data))"
proof -
  from endpoint_Inr [OF assms] consider
    (missing) g m where "r = not_found_response g m"
  | (looked) u m g where "lookup_product w u m g = (Inr r, calls)"
    by blast
  then show ?thesis
  proof cases
    case missing
    then show ?thesis by (simp add: not_found_fields)
  next
    case looked
    from lookup_product_Inr [OF looked] consider
      (missing) "r = not_found_response (Some g) m"
    | (found) d where "http_get w (Get (OFF_BASE_URL @ g) []) = Inr (JObj d)"
        "product_report w u (Get (OFF_BASE_URL @ g) []) g (dict_get d ''product'') = (Inr r, calls)"
      by blast
    then show ?thesis
    proof cases
      case missing
      then show ?thesis by (simp add: not_found_fields)
    next
      case found
      from product_report_Inr [OF found(2)] obtain p cf has h where
        p: "dict_get d ''product'' = JObj p" "extract_carbon p = Inr (cf, has)"
          "high_carbon cf = Inr h" "carbon_footprint r = cf" "is_high_carbon r = h"
          "gtin r = Some g"
        by blast
      have "h = exceeds_threshold cf"
        using p(3) by (rule high_carbon_exceeds)
      moreover have "exceeds_threshold cf \<Longrightarrow> cf \<noteq> JNull"
        by auto
      moreover have "cf = nested_co2_total (JObj d)"
        using p(2) p(1) by (rule extract_carbon_nested)
      ultimately show ?thesis
        using p found(1) by auto
    qed
  qed
qed

theorem carbon_flag_invariant_witness:
  "get_product (shop_world crisps [graded ''Popcorn'' ''b'', graded ''Puffs'' ''e'']) ''12345678''
     = (Inr crisps_response, [Get (OFF_BASE_URL @ ''12345678'') [], search_request ''snacks''])
   \<and> is_high_carbon crisps_response
   \<and> exceeds_threshold (carbon_footprint crisps_response)
   \<and> carbon_footprint crisps_response = nested_co2_total (found crisps)
   \<and> scan_product (shop_world apple []) [1]
     = (Inr apple_response, [Get (OFF_BASE_URL @ ''12345678'') []])
   \<and> \<not> is_high_carbon apple_response
   \<and> \<not> exceeds_threshold (carbon_footprint apple_response)"
proof -
  have c: "scan_product (shop_world crisps [graded ''Popcorn'' ''b'', graded ''Puffs'' ''e'']) []
             = (Inr crisps_response, [Get (OFF_BASE_URL @ ''12345678'') [], search_request ''snacks''])
         \<or> get_product (shop_world crisps [graded ''Popcorn'' ''b'', graded ''Puffs'' ''e'']) ''12345678''
             = (Inr crisps_response, [Get (OFF_BASE_URL @ ''12345678'') [], search_request ''snacks''])"
    using crisps_eval by simp
  have a: "scan_product (shop_world apple []) [1]
             = (Inr apple_response, [Get (OFF_BASE_URL @ ''12345678'') []])
         \<or> get_product (shop_world apple []) []
             = (Inr apple_response, [Get (OFF_BASE_URL @ ''12345678'') []])"
    using apple_eval by simp
  have n: "nested_co2_total (found crisps) = JFloat (Finite (7 / 2))"
    by code_simp
  from carbon_flag_invariant [OF c] carbon_flag_invariant [OF a] crisps_eval apple_eval n
  show ?thesis
    by (simp add: crisps_response_def apple_response_def)
qed

lemma high_carbon_py_or:
  "high_carbon cf = Inr h \<Longrightarrow>
     h \<longleftrightarrow> truthy (py_or cf (JInt 0)) \<and> py_gt (py_or cf (JInt 0)) CARBON_THRESHOLD = Inr True"
  by (cases cf rule: exceeds_threshold.cases)
    (auto simp: high_carbon_def py_or_def CARBON_THRESHOLD_def split: if_splits)

text \<open>
  Claim C10. In every response that either endpoint returns, the recommendations hold the
  high-carbon recommendation (priority high, text beginning \<^verbatim>\<open>High carbon footprint\<close>) if and
  only if \<^verbatim>\<open>is_high_carbon\<close> is true: the scorer receives \<^verbatim>\<open>carbon_footprint or 0\<close>, and neither
  0 nor a figure at or below the threshold fires its first rule.
\<close>

theorem carbon_warning_iff_flag:
  assumes "scan_product w image_data = (Inr r, calls) \<or> get_product w b = (Inr r, calls)"
  shows "(\<exists>x\<in>set (recommendations r). priority x = ''high'' \<and> prefix ''High carbon footprint'' (text x))
           \<longleftrightarrow> is_high_carbon r"
proof -
  have nf: "\<And>g m. r = not_found_response g m \<Longrightarrow> ?thesis"
    by (simp add: not_found_fields)
  from endpoint_Inr [OF assms] consider
    (missing) g m where "r = not_found_response g m"
  | (looked) u m g where "lookup_product w u m g = (Inr r, calls)"
    by blast
  then show ?thesis
  proof cases
    case missing
    then show ?thesis by (rule nf)
  next
    case looked
    from lookup_product_Inr [OF looked] consider
      (missing) "r = not_found_response (Some g) m"
    | (found) d where
        "product_report w u (Get (OFF_BASE_URL @ g) []) g (dict_get d ''product'') = (Inr r, calls)"
      by blast
    then show ?thesis
    proof cases
      case missing
      then show ?thesis by (rule nf)
    next
      case found
      from product_report_Inr [OF found] obtain p cf h recs where
        p: "high_carbon cf = Inr h" "generate_recommendations p (py_or cf (JInt 0)) = Inr recs"
          "is_high_carbon r = h" "recommendations r = recs"
        by blast
      from warning_iff_carbon_rule [OF p(2)] high_carbon_py_or [OF p(1)] p(3,4)
      show ?thesis by (simp add: is_carbon_warning_def)
    qed
  qed
qed

theorem carbon_warning_iff_flag_witness:
  "get_product (shop_world crisps [graded ''Popcorn'' ''b'', graded ''Puffs'' ''e'']) ''12345678''
     = (Inr crisps_response, [Get (OFF_BASE_URL @ ''12345678'') [], search_request ''snacks''])
   \<and> is_high_carbon crisps_response
   \<and> (\<exists>x\<in>set (recommendations crisps_response).
         priority x = ''high'' \<and> prefix ''High carbon footprint'' (text x))
   \<and> scan_product (shop_world apple []) [1]
     = (Inr apple_response, [Get (OFF_BASE_URL @ ''12345678'') []])
   \<and> \<not> is_high_carbon apple_response
   \<and> \<not> (\<exists>x\<in>set (recommendations apple_response).
         priority x = ''high'' \<and> prefix ''High carbon footprint'' (text x))"
proof -
  have c: "scan_product (shop_world crisps [graded ''Popcorn'' ''b'', graded ''Puffs'' ''e'']) []
             = (Inr crisps_response, [Get (OFF_BASE_URL @ ''12345678'') [], search_request ''snacks''])
         \<or> get_product (shop_world crisps [graded ''Popcorn'' ''b'', graded ''Puffs'' ''e'']) ''12345678''
             = (Inr crisps_response, [Get (OFF_BASE_URL @ ''12345678'') [], search_request ''snacks''])"
    using crisps_eval by simp
  have a: "scan_product (shop_world apple []) [1]
             = (Inr apple_response, [Get (OFF_BASE_URL @ ''12345678'') []])
         \<or> get_product (shop_world apple []) []
             = (Inr apple_response, [Get (OFF_BASE_URL @ ''12345678'') []])"
    using apple_eval by simp
  have h: "is_high_carbon crisps_response" "\<not> is_high_carbon apple_response"
    by (simp_all add: crisps_response_def apple_response_def)
  from carbon_warning_iff_flag [OF c] carbon_warning_iff_flag [OF a] h crisps_eval apple_eval
  show ?thesis by blast
qed

end
